theory Spec2Isabelle
  imports Complex_Main "HOL-Library.AList"
begin

section \<open>JavaScript values used by the client\<close>

text \<open>
  The development embeds the session and transport layer of the WhatsApp Web client
  (classes \<^verbatim>\<open>WhatsApp\<close>, \<^verbatim>\<open>ProtocolManager\<close>, \<^verbatim>\<open>AuthHandler\<close> / \<^verbatim>\<open>QRAuth\<close> and
  \<^verbatim>\<open>PairingCodeAuth\<close>) as functions on an explicit client state.

  A \<^verbatim>\<open>Buffer\<close> is a list of bytes. A JavaScript string is represented by its UTF-8
  bytes, so that \<^verbatim>\<open>Buffer.from(str)\<close> and \<^verbatim>\<open>buf.toString()\<close> are the identity (ill-formed
  UTF-8, which Node replaces by U+FFFD, is not tracked). JSON documents are values of
  the datatype \<open>json\<close>; a number is kept as the exact decimal \<open>m * 10 ^ e\<close> it denotes, an
  object as the list of its own properties in the order in which JavaScript enumerates
  them.

  \<^verbatim>\<open>JSON.stringify\<close> and \<^verbatim>\<open>JSON.parse\<close> belong to the platform, not to the client. They
  are given here by \<open>stringify\<close>, which writes a document without white space and escapes
  strings as ECMAScript does, and by \<open>JSON_parse\<close>, a recursive-descent parser for the
  JSON grammar that returns \<open>None\<close> where \<^verbatim>\<open>JSON.parse\<close> throws a \<^verbatim>\<open>SyntaxError\<close>. A
  four-digit hexadecimal escape is decoded to the UTF-8 bytes of its code unit; surrogate
  pairs are not combined.

  Numbers are exact where the client produces them: the numbers it writes are integers
  below \<open>2 ^ 53\<close> with exponent \<open>0\<close>, which \<open>stringify\<close> writes in decimal digits as
  \<^verbatim>\<open>JSON.stringify\<close> does. Rounding to binary64 is otherwise not part of the model, except
  that the parser reads a number too small for binary64 as zero: a number with another
  exponent is written by \<open>stringify\<close> as mantissa, \<^verbatim>\<open>e\<close>, exponent, which is not the text that
  \<^verbatim>\<open>JSON.stringify\<close> produces, and a parsed number of more than 15 significant digits keeps
  digits that binary64 drops.
\<close>

type_synonym buffer = "char list"

datatype json =
    JNull
  | JBool bool
  | JNumber int int
  | JString string
  | JArray "json list"
  | JObject "(string \<times> json) list"

definition digit_char :: "nat \<Rightarrow> char" where
  "digit_char d = ''0123456789abcdef'' ! d"

function show_nat :: "nat \<Rightarrow> string" where
  "show_nat n = (if n < 10 then [digit_char n] else show_nat (n div 10) @ [digit_char (n mod 10)])"
  by pat_completeness auto
termination
  by (relation "measure id") auto

declare show_nat.simps [simp del]

definition show_int :: "int \<Rightarrow> string" where
  "show_int i = (if i < 0 then CHR ''-'' # show_nat (nat (- i)) else show_nat (nat i))"

definition quote_char :: "char \<Rightarrow> string" where
  "quote_char c =
     (if c = CHR 0x22 then [CHR 0x5C, CHR 0x22]
      else if c = CHR 0x5C then [CHR 0x5C, CHR 0x5C]
      else if c = CHR 0x08 then [CHR 0x5C, CHR ''b'']
      else if c = CHR 0x0C then [CHR 0x5C, CHR ''f'']
      else if c = CHR 0x0A then [CHR 0x5C, CHR ''n'']
      else if c = CHR 0x0D then [CHR 0x5C, CHR ''r'']
      else if c = CHR 0x09 then [CHR 0x5C, CHR ''t'']
      else if (of_char c :: nat) < 0x20
        then [CHR 0x5C, CHR ''u'', CHR ''0'', CHR ''0'',
              digit_char (of_char c div 16), digit_char (of_char c mod 16)]
      else [c])"

definition quote :: "string \<Rightarrow> string" where
  "quote s = CHR 0x22 # concat (map quote_char s) @ [CHR 0x22]"

fun stringify :: "json \<Rightarrow> string"
  and stringify_elements :: "json list \<Rightarrow> string"
  and stringify_members :: "(string \<times> json) list \<Rightarrow> string" where
  "stringify JNull = ''null''"
| "stringify (JBool b) = (if b then ''true'' else ''false'')"
| "stringify (JNumber m e) = (if e = 0 then show_int m else show_int m @ ''e'' @ show_int e)"
| "stringify (JString s) = quote s"
| "stringify (JArray xs) = ''['' @ stringify_elements xs @ '']''"
| "stringify (JObject kvs) = ''{'' @ stringify_members kvs @ ''}''"
| "stringify_elements [] = []"
| "stringify_elements [x] = stringify x"
| "stringify_elements (x # y # ys) = stringify x @ '','' @ stringify_elements (y # ys)"
| "stringify_members [] = []"
| "stringify_members [(k, v)] = quote k @ '':'' @ stringify v"
| "stringify_members ((k, v) # kv # kvs) =
     quote k @ '':'' @ stringify v @ '','' @ stringify_members (kv # kvs)"

text \<open>
  The parser. White space is space, tab, line feed and carriage return. The mutual
  recursion over values, array elements and object members is bounded by fuel;
  \<open>JSON_parse\<close> supplies two units for every character of the text, and two more.
\<close>

definition is_ws :: "char \<Rightarrow> bool" where
  "is_ws c \<longleftrightarrow> c = CHR 0x20 \<or> c = CHR 0x09 \<or> c = CHR 0x0A \<or> c = CHR 0x0D"

definition skip_ws :: "string \<Rightarrow> string" where
  "skip_ws s = dropWhile is_ws s"

definition is_digit :: "char \<Rightarrow> bool" where
  "is_digit c \<longleftrightarrow> (48::nat) \<le> of_char c \<and> (of_char c :: nat) \<le> 57"

definition digit_val :: "char \<Rightarrow> nat" where
  "digit_val c = of_char c - 48"

definition digits_val :: "string \<Rightarrow> nat" where
  "digits_val ds = foldl (\<lambda>a c. 10 * a + digit_val c) 0 ds"

definition hex_val :: "char \<Rightarrow> nat option" where
  "hex_val c =
     (let n = (of_char c :: nat) in
      if 48 \<le> n \<and> n \<le> 57 then Some (n - 48)
      else if 97 \<le> n \<and> n \<le> 102 then Some (n - 87)
      else if 65 \<le> n \<and> n \<le> 70 then Some (n - 55)
      else None)"

fun hex4 :: "string \<Rightarrow> nat option" where
  "hex4 [a, b, c, d] =
     (case (hex_val a, hex_val b, hex_val c, hex_val d) of
        (Some x, Some y, Some z, Some w) \<Rightarrow> Some (((x * 16 + y) * 16 + z) * 16 + w)
      | _ \<Rightarrow> None)"
| "hex4 _ = None"

definition utf8 :: "nat \<Rightarrow> string" where
  "utf8 cu =
     (if cu < 0x80 then [char_of cu]
      else if cu < 0x800 then [char_of (0xC0 + cu div 64), char_of (0x80 + cu mod 64)]
      else [char_of (0xE0 + cu div 4096), char_of (0x80 + (cu div 64) mod 64),
            char_of (0x80 + cu mod 64)])"

definition unescape :: "char \<Rightarrow> char option" where
  "unescape e =
     (if e = CHR 0x22 then Some (CHR 0x22)
      else if e = CHR 0x5C then Some (CHR 0x5C)
      else if e = CHR ''/'' then Some (CHR ''/'')
      else if e = CHR ''b'' then Some (CHR 0x08)
      else if e = CHR ''f'' then Some (CHR 0x0C)
      else if e = CHR ''n'' then Some (CHR 0x0A)
      else if e = CHR ''r'' then Some (CHR 0x0D)
      else if e = CHR ''t'' then Some (CHR 0x09)
      else None)"

fun parse_chars :: "string \<Rightarrow> (string \<times> string) option" where
  "parse_chars [] = None"
| "parse_chars (c # cs) =
     (if c = CHR 0x22 then Some ([], cs)
      else if c = CHR 0x5C then
        (case cs of
           [] \<Rightarrow> None
         | e # rest \<Rightarrow>
             if e = CHR ''u'' then
               (case hex4 (take 4 rest) of
                  None \<Rightarrow> None
                | Some cu \<Rightarrow>
                    map_option (\<lambda>(s, r). (utf8 cu @ s, r)) (parse_chars (drop 4 rest)))
             else
               (case unescape e of
                  None \<Rightarrow> None
                | Some d \<Rightarrow> map_option (\<lambda>(s, r). (d # s, r)) (parse_chars rest)))
      else if (of_char c :: nat) < 0x20 then None
      else map_option (\<lambda>(s, r). (c # s, r)) (parse_chars cs))"

definition parse_exponent :: "string \<Rightarrow> (int \<times> string) option" where
  "parse_exponent s =
     (case s of
        [] \<Rightarrow> Some (0, s)
      | c # cs \<Rightarrow>
          if c = CHR ''e'' \<or> c = CHR ''E'' then
            (let (neg, s1) =
                   (case cs of
                      [] \<Rightarrow> (False, cs)
                    | d # ds \<Rightarrow> if d = CHR ''-'' then (True, ds)
                               else if d = CHR ''+'' then (False, ds) else (False, cs));
                 es = takeWhile is_digit s1
             in if es = [] then None
                else Some ((if neg then - int (digits_val es) else int (digits_val es)),
                           dropWhile is_digit s1))
          else Some (0, s))"

definition parse_fraction :: "string \<Rightarrow> (string \<times> string) option" where
  "parse_fraction s =
     (case s of
        [] \<Rightarrow> Some ([], s)
      | c # cs \<Rightarrow>
          if c = CHR ''.'' then
            (let fs = takeWhile is_digit cs
             in if fs = [] then None else Some (fs, dropWhile is_digit cs))
          else Some ([], s))"

text \<open>
  A number whose magnitude is at most \<open>2 ^ - 1075\<close>, half of the smallest positive binary64
  value, is read as zero, as \<^verbatim>\<open>JSON.parse\<close> does; \<open>underflows m e\<close> tests that for \<open>m * 10 ^ e\<close>.
\<close>

definition underflows :: "int \<Rightarrow> int \<Rightarrow> bool" where
  "underflows m e \<longleftrightarrow> e < 0 \<and> \<bar>m\<bar> * 2 ^ 1075 \<le> 10 ^ nat (- e)"

definition parse_number :: "string \<Rightarrow> (json \<times> string) option" where
  "parse_number s =
     (let (neg, s1) =
            (case s of [] \<Rightarrow> (False, s)
             | c # cs \<Rightarrow> if c = CHR ''-'' then (True, cs) else (False, s));
          ds = takeWhile is_digit s1
      in if ds = [] \<or> (1 < length ds \<and> hd ds = CHR ''0'') then None
         else
           (case parse_fraction (dropWhile is_digit s1) of
              None \<Rightarrow> None
            | Some (fs, s2) \<Rightarrow>
                (case parse_exponent s2 of
                   None \<Rightarrow> None
                 | Some (e, s3) \<Rightarrow>
                     let m = int (digits_val (ds @ fs));
                         x = e - int (length fs)
                     in if underflows m x then Some (JNumber 0 0, s3)
                        else Some (JNumber (if neg then - m else m) x, s3))))"

definition parse_literal :: "string \<Rightarrow> json \<Rightarrow> string \<Rightarrow> (json \<times> string) option" where
  "parse_literal lit v s =
     (if take (length lit) s = lit then Some (v, drop (length lit) s) else None)"

text \<open>
  The own properties of the object that \<^verbatim>\<open>JSON.parse\<close> creates from the members of an object
  text, in the order in which JavaScript enumerates them: of a repeated key the last
  value counts, at the place of its first occurrence; keys that are array indices
  (canonical decimal numerals up to \<open>2 ^ 32 - 2\<close>) come first, in ascending order, the other
  keys follow in the order of the text.
\<close>

definition index_val :: "string \<Rightarrow> int" where
  "index_val k = foldl (\<lambda>a c. 10 * a + int (digit_val c)) 0 k"

definition is_array_index :: "string \<Rightarrow> bool" where
  "is_array_index k \<longleftrightarrow>
     k \<noteq> [] \<and> list_all is_digit k \<and> (hd k \<noteq> CHR ''0'' \<or> length k = 1) \<and>
     index_val k \<le> 4294967294"

definition own_properties :: "(string \<times> json) list \<Rightarrow> (string \<times> json) list" where
  "own_properties kvs =
     (let ps = foldl (\<lambda>acc (k, v). AList.update k v acc) [] kvs
      in sort_key (\<lambda>(k, v). index_val k) (filter (\<lambda>(k, v). is_array_index k) ps) @
         filter (\<lambda>(k, v). \<not> is_array_index k) ps)"

fun parse_value :: "nat \<Rightarrow> string \<Rightarrow> (json \<times> string) option"
  and parse_elements :: "nat \<Rightarrow> string \<Rightarrow> (json list \<times> string) option"
  and parse_members :: "nat \<Rightarrow> string \<Rightarrow> ((string \<times> json) list \<times> string) option" where
  "parse_value 0 s = None"
| "parse_value (Suc n) [] = None"
| "parse_value (Suc n) (c # cs) =
     (if c = CHR ''{'' then
        (case skip_ws cs of
           [] \<Rightarrow> None
         | d # ds \<Rightarrow>
             if d = CHR ''}'' then Some (JObject [], ds)
             else map_option (\<lambda>(kvs, r). (JObject (own_properties kvs), r))
                    (parse_members n (d # ds)))
      else if c = CHR ''['' then
        (case skip_ws cs of
           [] \<Rightarrow> None
         | d # ds \<Rightarrow>
             if d = CHR '']'' then Some (JArray [], ds)
             else map_option (\<lambda>(xs, r). (JArray xs, r)) (parse_elements n (d # ds)))
      else if c = CHR 0x22 then map_option (\<lambda>(s, r). (JString s, r)) (parse_chars cs)
      else if c = CHR ''t'' then parse_literal ''true'' (JBool True) (c # cs)
      else if c = CHR ''f'' then parse_literal ''false'' (JBool False) (c # cs)
      else if c = CHR ''n'' then parse_literal ''null'' JNull (c # cs)
      else parse_number (c # cs))"
| "parse_elements 0 s = None"
| "parse_elements (Suc n) s =
     (case parse_value n s of
        None \<Rightarrow> None
      | Some (v, r) \<Rightarrow>
          (case skip_ws r of
             [] \<Rightarrow> None
           | d # ds \<Rightarrow>
               if d = CHR '']'' then Some ([v], ds)
               else if d = CHR '','' then
                 map_option (\<lambda>(vs, r'). (v # vs, r')) (parse_elements n (skip_ws ds))
               else None))"
| "parse_members 0 s = None"
| "parse_members (Suc n) s =
     (case s of
        [] \<Rightarrow> None
      | q # cs \<Rightarrow>
          if q \<noteq> CHR 0x22 then None
          else
            (case parse_chars cs of
               None \<Rightarrow> None
             | Some (k, r) \<Rightarrow>
                 (case skip_ws r of
                    [] \<Rightarrow> None
                  | col # r1 \<Rightarrow>
                      if col \<noteq> CHR '':'' then None
                      else
                        (case parse_value n (skip_ws r1) of
                           None \<Rightarrow> None
                         | Some (v, r2) \<Rightarrow>
                             (case skip_ws r2 of
                                [] \<Rightarrow> None
                              | d # ds \<Rightarrow>
                                  if d = CHR ''}'' then Some ([(k, v)], ds)
                                  else if d = CHR '','' then
                                    map_option (\<lambda>(kvs, r'). ((k, v) # kvs, r'))
                                      (parse_members n (skip_ws ds))
                                  else None)))))"

definition JSON_parse :: "string \<Rightarrow> json option" where
  "JSON_parse s =
     (case parse_value (2 * length s + 2) (skip_ws s) of
        None \<Rightarrow> None
      | Some (v, r) \<Rightarrow> if skip_ws r = [] then Some v else None)"



text \<open>
  Property access on a JavaScript value. Reading a property of \<^verbatim>\<open>null\<close> raises a
  \<^verbatim>\<open>TypeError\<close> (function \<open>nullish\<close> marks that case); on every other value a missing
  property reads as \<^verbatim>\<open>undefined\<close>, here \<open>None\<close>. For an object parsed from a document with a
  repeated key the last binding counts. Only the property names the client reads
  (\<^verbatim>\<open>status\<close>, \<^verbatim>\<open>type\<close>, \<^verbatim>\<open>ref\<close>, \<^verbatim>\<open>tag\<close>, \<^verbatim>\<open>data\<close>, ...) are looked up, none of which is a
  built-in property of a string, number, boolean or array.
\<close>

definition nullish :: "json \<Rightarrow> bool" where
  "nullish v \<longleftrightarrow> v = JNull"

fun get_prop :: "json \<Rightarrow> string \<Rightarrow> json option" where
  "get_prop (JObject kvs) k = map_of (rev kvs) k"
| "get_prop _ k = None"

fun truthy :: "json option \<Rightarrow> bool" where
  "truthy None = False"
| "truthy (Some JNull) = False"
| "truthy (Some (JBool b)) = b"
| "truthy (Some (JNumber m e)) = (m \<noteq> 0)"
| "truthy (Some (JString s)) = (s \<noteq> [])"
| "truthy (Some (JArray xs)) = True"
| "truthy (Some (JObject kvs)) = True"

definition is_string :: "json option \<Rightarrow> string \<Rightarrow> bool" where
  "is_string v s \<longleftrightarrow> v = Some (JString s)"

section \<open>Constants and data model\<close>

definition WA_MAGIC :: buffer where
  "WA_MAGIC = [CHR 0x57, CHR 0x41]"

definition WA_PREFIX_INFO :: buffer where
  "WA_PREFIX_INFO = [CHR 0x06, CHR 0x00, CHR 0x00, CHR 0x00]"

definition WA_PREFIX_BINARY :: buffer where
  "WA_PREFIX_BINARY = [CHR 0x06, CHR 0x01, CHR 0x00, CHR 0x00]"

definition WA_VERSION :: "int list" where
  "WA_VERSION = [2, 2342, 59]"

datatype ConnectionState =
  DISCONNECTED | CONNECTING | CONNECTED | AUTHENTICATED | READY | TIMEOUT

datatype js_error = SyntaxError | TypeError | Error string

datatype ready_state = WS_CONNECTING | WS_OPEN | WS_CLOSING | WS_CLOSED

record options =
  maxReconnects :: nat
  reconnectDelay :: nat
  autoReconnect :: bool
  qrMaxRetries :: nat
  qrTimeout :: nat

text \<open>
  The key object of a handler: \<^verbatim>\<open>generateKeys\<close> creates it with the properties
  \<^verbatim>\<open>private\<close> and \<^verbatim>\<open>public\<close>; \<^verbatim>\<open>handleAuthSuccess\<close> reads its properties \<^verbatim>\<open>encKey\<close> and
  \<^verbatim>\<open>macKey\<close>, which are \<^verbatim>\<open>undefined\<close> (\<open>None\<close>) unless something else has set them.
\<close>

record keypair =
  key_private :: buffer
  key_public :: buffer
  key_encKey :: "buffer option"
  key_macKey :: "buffer option"

record user =
  user_id :: "json option"
  user_name :: "json option"
  user_phone :: "json option"

record session =
  session_clientId :: "string option"
  serverToken :: "json option"
  clientToken :: "json option"
  session_encKey :: "buffer option"
  session_macKey :: "buffer option"
  me :: user

text \<open>
  A timer created by \<^verbatim>\<open>setTimeout\<close>: its delay in milliseconds and whether it can still
  fire. \<^verbatim>\<open>clearTimeout\<close> and firing both disarm it.
\<close>

record timer =
  t_delay :: real
  t_armed :: bool

text \<open>
  The promise returned by \<^verbatim>\<open>sendBinary\<close>. Settling follows ECMAScript: \<^verbatim>\<open>resolve\<close> and
  \<^verbatim>\<open>reject\<close> act on a pending promise only.
\<close>

datatype promise = Pending | Resolved json | Rejected js_error

definition settle :: "promise \<Rightarrow> promise \<Rightarrow> promise" where
  "settle v p = (if p = Pending then v else p)"

text \<open>
  One call of \<^verbatim>\<open>sendBinary\<close> that reached \<^verbatim>\<open>new Promise\<close>: the tag, the timeout timer and the
  promise of that call. The closure stored in \<^verbatim>\<open>callbacks\<close> is represented by the index of
  its request in \<open>requests\<close>.
\<close>

record request =
  rq_tag :: string
  rq_timer :: timer
  rq_promise :: promise

datatype pairing_failure = Reason json | Exception js_error

datatype event =
    Ev_state_change ConnectionState ConnectionState
  | Ev_connected
  | Ev_disconnected "(int \<times> string) option"
  | Ev_connection_failure
  | Ev_connection_error
  | Ev_reconnect_failed
  | Ev_connection_success json
  | Ev_connecting json
  | Ev_connection_timeout json
  | Ev_unknown_message json
  | Ev_qr "json option"
  | Ev_qr_error
  | Ev_qr_expired
  | Ev_qr_max_retries
  | Ev_authenticated user session
  | Ev_ready
  | Ev_pairing_code_request string
  | Ev_pairing_code "json option"
  | Ev_pairing_code_error pairing_failure
  | Ev_presence json
  | Ev_binary_message json
  | Ev_notification json
  | Ev_privacy_notification json
  | Ev_contact_notification json
  | Ev_handler string json

text \<open>
  The client state: the fields of \<^verbatim>\<open>WhatsApp\<close>, of its \<^verbatim>\<open>ProtocolManager\<close>
  (\<open>messageTagCounter\<close>, \<open>callbacks\<close>) and of its \<^verbatim>\<open>AuthHandler\<close> (\<open>clientId\<close>, \<open>keys\<close>),
  followed by what the client did to its surroundings: the events emitted, the frames
  handed to \<^verbatim>\<open>ws.send\<close>, the lines logged, and the timers and promises created by the
  protocol manager. \<open>ws\<close> is the socket referenced by the client together with its
  \<^verbatim>\<open>readyState\<close>. \<open>readyTimers\<close> holds the settle-delay timers created by
  \<^verbatim>\<open>handleAuthSuccess\<close>, whose handles the code does not keep. Event listeners are not
  modelled: \<open>emit\<close> only records the event. Calls into the message and group handlers,
  which are outside the session layer, are recorded as \<open>Ev_handler\<close>.
\<close>

record client =
  opts :: options
  state :: ConnectionState
  session :: "session option"
  user :: "user option"
  ws :: "ready_state option"
  reconnectCount :: nat
  qrRetryCount :: nat
  reconnectTimer :: "timer option"
  qrRefreshTimer :: "timer option"
  readyTimers :: "timer list"
  messageTagCounter :: nat
  callbacks :: "(string \<times> nat) list"
  requests :: "request list"
  clientId :: "string option"
  keys :: "keypair option"
  emitted :: "event list"
  sent :: "buffer list"
  logged :: "string list"

text \<open>
  What a step takes from outside the program: the clock, the random bytes, the results
  of the library calls (\<^verbatim>\<open>curve.makeKeyPair\<close>, base64 encoding, the \<^verbatim>\<open>WebSocket\<close> constructor,
  the QR rendering and file write) and the error, if any, that \<^verbatim>\<open>ws.send\<close> reports to its
  callback.
\<close>

record env =
  now :: int
  randomBytes16 :: buffer
  randomBytes32 :: buffer
  randomBytes8 :: buffer
  makeKeyPair :: "buffer \<Rightarrow> buffer"
  base64 :: "buffer \<Rightarrow> string"
  websocket_ok :: bool
  qrcode_ok :: bool
  send_error :: "js_error option"

text \<open>The result of a call that may throw: the state reached, and the exception if any.\<close>

datatype 'a outcome = Return 'a | Throw js_error 'a

definition state_of :: "'a outcome \<Rightarrow> 'a" where
  "state_of r = (case r of Return c \<Rightarrow> c | Throw e c \<Rightarrow> c)"

definition new_client :: "options \<Rightarrow> client" where
  "new_client os =
     \<lparr> opts = os, state = DISCONNECTED, session = None, user = None, ws = None,
       reconnectCount = 0, qrRetryCount = 0, reconnectTimer = None, qrRefreshTimer = None,
       readyTimers = [], messageTagCounter = 0, callbacks = [], requests = [],
       clientId = None, keys = None, emitted = [], sent = [], logged = [] \<rparr>"

definition default_options :: options where
  "default_options =
     \<lparr> maxReconnects = 5, reconnectDelay = 3000, autoReconnect = True,
       qrMaxRetries = 3, qrTimeout = 60000 \<rparr>"

definition emit :: "event \<Rightarrow> client \<Rightarrow> client" where
  "emit e c = c\<lparr>emitted := emitted c @ [e]\<rparr>"

definition log_line :: "string \<Rightarrow> client \<Rightarrow> client" where
  "log_line m c = c\<lparr>logged := logged c @ [m]\<rparr>"


section \<open>ProtocolManager: tags and send primitives\<close>

text \<open>
  \<^verbatim>\<open>messageTagCounter++\<close> on a JavaScript number: integers are exact up to \<open>2 ^ 53\<close>, where
  adding one rounds back to \<open>2 ^ 53\<close>.
\<close>

definition js_increment :: "nat \<Rightarrow> nat" where
  "js_increment n = (if n < 2 ^ 53 then n + 1 else n)"

definition generateMessageTag :: "env \<Rightarrow> client \<Rightarrow> string \<times> client" where
  "generateMessageTag ev c =
     (show_int (now ev) @ ''.--'' @ show_nat (messageTagCounter c),
      c\<lparr>messageTagCounter := js_increment (messageTagCounter c)\<rparr>)"

definition BinaryEncoder_encode :: "(string \<times> json) list \<Rightarrow> buffer" where
  "BinaryEncoder_encode node = stringify (JObject node)"

datatype decoded = Parsed json | RawData buffer

definition BinaryDecoder_decode :: "buffer \<Rightarrow> decoded" where
  "BinaryDecoder_decode buffer =
     (case JSON_parse buffer of Some j \<Rightarrow> Parsed j | None \<Rightarrow> RawData buffer)"

definition ws_open :: "client \<Rightarrow> bool" where
  "ws_open c \<longleftrightarrow> ws c = Some WS_OPEN"

definition sendJSON :: "json \<Rightarrow> client \<Rightarrow> client outcome" where
  "sendJSON data c =
     (if \<not> ws_open c then Throw (Error ''WebSocket is not connected'') c
      else Return (c\<lparr>sent := sent c @ [WA_MAGIC @ WA_PREFIX_INFO @ stringify data]\<rparr>))"

definition set_prop :: "(string \<times> json) list \<Rightarrow> string \<Rightarrow> json \<Rightarrow> (string \<times> json) list" where
  "set_prop node k v = AList.update k v node"

definition disarm :: "timer \<Rightarrow> timer" where
  "disarm t = t\<lparr>t_armed := False\<rparr>"

text \<open>
  \<^verbatim>\<open>sendBinary(node, options)\<close> with \<open>tag_opt\<close> for \<^verbatim>\<open>options.tag\<close> and \<open>timeout_opt\<close> for
  \<^verbatim>\<open>options.timeout\<close>. On success the new request has index \<open>length (requests c)\<close> of the
  state the call started from.
\<close>

definition sendBinary ::
  "env \<Rightarrow> (string \<times> json) list \<Rightarrow> string option \<Rightarrow> nat option \<Rightarrow> client \<Rightarrow> client outcome" where
  "sendBinary ev node tag_opt timeout_opt c =
     (if \<not> ws_open c then Throw (Error ''WebSocket is not connected'') c
      else
        let (tag, c1) =
              (case tag_opt of
                 Some t \<Rightarrow> if t \<noteq> [] then (t, c) else generateMessageTag ev c
               | None \<Rightarrow> generateMessageTag ev c);
            encoded = BinaryEncoder_encode (set_prop node ''tag'' (JString tag));
            buffer = WA_MAGIC @ WA_PREFIX_BINARY @ encoded;
            timeout =
              \<lparr> t_delay = real (case timeout_opt of
                                  Some t \<Rightarrow> if t \<noteq> 0 then t else 60000
                                | None \<Rightarrow> 60000),
                t_armed = True \<rparr>
        in Return
             (c1\<lparr> callbacks := AList.update tag (length (requests c1)) (callbacks c1),
                  requests := requests c1 @
                    [\<lparr> rq_tag = tag, rq_timer = timeout, rq_promise = Pending \<rparr>],
                  sent := sent c1 @ [buffer] \<rparr>))"

text \<open>The timeout callback installed by \<^verbatim>\<open>sendBinary\<close> for request \<open>rid\<close>, when its timer fires.\<close>

definition request_timeout :: "nat \<Rightarrow> client \<Rightarrow> client" where
  "request_timeout rid c =
     (if rid < length (requests c) \<and> t_armed (rq_timer (requests c ! rid)) then
        let r = requests c ! rid
        in c\<lparr> callbacks := AList.delete (rq_tag r) (callbacks c),
               requests := (requests c)
                 [rid := r\<lparr> rq_timer := disarm (rq_timer r),
                            rq_promise := settle (Rejected (Error ''Response timeout'')) (rq_promise r) \<rparr>] \<rparr>
      else c)"

text \<open>The callback that \<^verbatim>\<open>sendBinary\<close> passes to \<^verbatim>\<open>ws.send\<close> for request \<open>rid\<close>.\<close>

definition send_callback :: "nat \<Rightarrow> js_error option \<Rightarrow> client \<Rightarrow> client" where
  "send_callback rid err c =
     (case err of
        None \<Rightarrow> c
      | Some e \<Rightarrow>
          if rid < length (requests c) then
            let r = requests c ! rid
            in c\<lparr> callbacks := AList.delete (rq_tag r) (callbacks c),
                   requests := (requests c)
                     [rid := r\<lparr> rq_timer := disarm (rq_timer r),
                                rq_promise := settle (Rejected e) (rq_promise r) \<rparr>] \<rparr>
          else c)"

text \<open>The closure stored in \<^verbatim>\<open>callbacks\<close> for request \<open>rid\<close>, applied to a reply.\<close>

definition reply_callback :: "nat \<Rightarrow> json \<Rightarrow> client \<Rightarrow> client" where
  "reply_callback rid response c =
     (if rid < length (requests c) then
        let r = requests c ! rid
        in c\<lparr> requests := (requests c)
               [rid := r\<lparr> rq_timer := disarm (rq_timer r),
                          rq_promise := settle (Resolved response) (rq_promise r) \<rparr>] \<rparr>
      else c)"

definition initialMessage :: "client \<Rightarrow> json" where
  "initialMessage c =
     JObject
       ([(''clientToken'', (case clientId c of None \<Rightarrow> JNull | Some i \<Rightarrow> JString i)),
         (''connectType'', JString ''WIFI_UNKNOWN''),
         (''connectReason'', JString ''USER_ACTIVATED''),
         (''userAgent'',
            JObject
              [(''platform'', JString ''DESKTOP''),
               (''appVersion'',
                  JObject [(''primary'', JNumber (WA_VERSION ! 0) 0),
                           (''secondary'', JNumber (WA_VERSION ! 1) 0),
                           (''tertiary'', JNumber (WA_VERSION ! 2) 0)]),
               (''osVersion'',
                  JObject [(''primary'', JNumber 10 0), (''secondary'', JNumber 0 0),
                           (''tertiary'', JNumber 0 0)])]),
         (''webInfo'', JObject [(''webSubPlatform'', JString ''WEB_BROWSER'')])]
        @ (case session c of
             None \<Rightarrow> []
           | Some s \<Rightarrow>
               (''passive'', JBool True)
               # (case serverToken s of None \<Rightarrow> [] | Some t \<Rightarrow> [(''session'', t)])))"

definition sendInitialMessage :: "client \<Rightarrow> client outcome" where
  "sendInitialMessage c = sendJSON (initialMessage c) c"

text \<open>
  \<^verbatim>\<open>sendLogout\<close> up to its \<^verbatim>\<open>await\<close>: the request is registered, or the exception of
  \<^verbatim>\<open>sendBinary\<close> is caught and logged.
\<close>

definition sendLogout :: "env \<Rightarrow> client \<Rightarrow> client" where
  "sendLogout ev c =
     (let (ident, c1) = generateMessageTag ev c;
          node = [(''id'', JString ident), (''type'', JString ''action''),
                  (''data'', JObject [(''type'', JString ''set''), (''xmlns'', JString ''status''),
                                      (''status'', JString ''logout'')])]
      in case sendBinary ev node None (Some 5000) c1 of
           Return c2 \<Rightarrow> c2
         | Throw e c2 \<Rightarrow> log_line ''Error sending logout message'' c2)"

section \<open>WhatsApp: connection life cycle and reconnection\<close>

definition hex :: "buffer \<Rightarrow> string" where
  "hex b = concat (map (\<lambda>c. [digit_char (of_char c div 16), digit_char (of_char c mod 16)]) b)"

definition generateKeys :: "env \<Rightarrow> client \<Rightarrow> client" where
  "generateKeys ev c =
     log_line ''Generated new client ID and keys''
       (c\<lparr> clientId := Some (hex (randomBytes16 ev)),
            keys := Some \<lparr> key_private = randomBytes32 ev,
                           key_public = makeKeyPair ev (randomBytes32 ev),
                           key_encKey = None, key_macKey = None \<rparr> \<rparr>)"

text \<open>
  \<^verbatim>\<open>_scheduleReconnect\<close>. The timer it replaces has been cleared; the new one is armed.
  \<open>t_delay\<close> is the real number \<open>reconnectDelay * (3 / 2) ^ (n - 1)\<close>. The code computes this
  product in binary64, which is exact as long as the product has at most 53 significant
  bits (with the default delay of 3000 ms, up to attempt 29), and \<^verbatim>\<open>setTimeout\<close> replaces a
  delay above \<open>2 ^ 31 - 1\<close> ms by 1 ms; neither the rounding nor that replacement is part
  of \<open>t_delay\<close>.
\<close>

definition scheduleReconnect :: "client \<Rightarrow> client" where
  "scheduleReconnect c =
     (if reconnectCount c \<ge> maxReconnects (opts c) then
        emit Ev_reconnect_failed (log_line ''Maximum reconnect attempts reached'' c)
      else
        let c1 = c\<lparr>reconnectCount := reconnectCount c + 1\<rparr>;
            delay = real (reconnectDelay (opts c1)) * (3 / 2) ^ (reconnectCount c1 - 1);
            c2 = log_line ''Scheduling reconnect attempt'' c1
        in c2\<lparr>reconnectTimer := Some \<lparr> t_delay = delay, t_armed = True \<rparr>\<rparr>)"

definition connect :: "env \<Rightarrow> client \<Rightarrow> client" where
  "connect ev c =
     (if state c \<noteq> DISCONNECTED then log_line ''Already connecting or connected'' c
      else
        let c1 = emit (Ev_state_change DISCONNECTED CONNECTING) (c\<lparr>state := CONNECTING\<rparr>);
            c2 = log_line ''Connecting to WhatsApp Web servers...'' c1;
            c3 = (if session c2 = None then generateKeys ev c2 else c2)
        in if websocket_ok ev then c3\<lparr>ws := Some WS_CONNECTING\<rparr>
           else
             let c4 = log_line ''Error connecting to WhatsApp Web'' c3;
                 c5 = emit Ev_connection_failure
                        (emit (Ev_state_change CONNECTING DISCONNECTED)
                           (c4\<lparr>state := DISCONNECTED\<rparr>))
             in if autoReconnect (opts c5) then scheduleReconnect c5 else c5)"

definition disconnect :: "env \<Rightarrow> client \<Rightarrow> client" where
  "disconnect ev c =
     (if state c = DISCONNECTED then c
      else
        let prevState = state c;
            c1 = c\<lparr>state := DISCONNECTED\<rparr>;
            c2 = (if reconnectTimer c1 \<noteq> None then c1\<lparr>reconnectTimer := None\<rparr> else c1);
            c3 = (if qrRefreshTimer c2 \<noteq> None then c2\<lparr>qrRefreshTimer := None\<rparr> else c2);
            c4 = (if state c3 = AUTHENTICATED \<or> state c3 = READY then sendLogout ev c3 else c3);
            c5 = (if ws c4 \<noteq> None then c4\<lparr>ws := None\<rparr> else c4);
            c6 = emit (Ev_disconnected None)
                   (emit (Ev_state_change prevState DISCONNECTED) c5)
        in log_line ''Disconnected from WhatsApp Web servers'' c6)"

text \<open>
  \<^verbatim>\<open>restoreSession(session)\<close>, with its two \<^verbatim>\<open>await\<close>s run to completion: the stored session
  is installed and \<^verbatim>\<open>connect()\<close> is called, which generates keys only when there is no
  session.
\<close>

definition restoreSession :: "env \<Rightarrow> session \<Rightarrow> client \<Rightarrow> client" where
  "restoreSession ev s c =
     (let c1 = (if state c \<noteq> DISCONNECTED then disconnect ev c else c)
      in connect ev (c1\<lparr>session := Some s\<rparr>))"

definition onWebSocketOpen :: "client \<Rightarrow> client" where
  "onWebSocketOpen c =
     (let c1 = (log_line ''WebSocket connection established'' c)\<lparr>state := CONNECTED\<rparr>;
          c2 = emit Ev_connected (emit (Ev_state_change CONNECTING CONNECTED) c1)
      in state_of (sendInitialMessage c2))"

definition onWebSocketClose :: "int \<Rightarrow> string \<Rightarrow> client \<Rightarrow> client" where
  "onWebSocketClose code reason c =
     (let c0 = log_line ''WebSocket closed'' c;
          prevState = state c0;
          c1 = c0\<lparr>state := DISCONNECTED\<rparr>;
          c2 = emit (Ev_disconnected (Some (code, reason)))
                 (emit (Ev_state_change prevState DISCONNECTED) c1)
      in if autoReconnect (opts c2) \<and> code \<noteq> 1000 then scheduleReconnect c2 else c2)"

definition onWebSocketError :: "client \<Rightarrow> client" where
  "onWebSocketError c = emit Ev_connection_error (log_line ''WebSocket error'' c)"

text \<open>The callback of the reconnect timer, when the timer fires.\<close>

definition reconnect_timeout :: "env \<Rightarrow> client \<Rightarrow> client" where
  "reconnect_timeout ev c =
     (case reconnectTimer c of
        None \<Rightarrow> c
      | Some t \<Rightarrow>
          if t_armed t
          then connect ev (log_line ''Reconnecting'' (c\<lparr>reconnectTimer := Some (disarm t)\<rparr>))
          else c)"

section \<open>AuthHandler / QRAuth\<close>

text \<open>
  \<^verbatim>\<open>handleQRCode\<close> is an \<^verbatim>\<open>async\<close> function; its steps are taken together here, with
  \<open>qrcode_ok\<close> telling whether the rendering and the file write succeed. An exception
  inside its \<^verbatim>\<open>try\<close> block ends in the \<^verbatim>\<open>qr_error\<close> event.
\<close>

definition handleQRCode :: "env \<Rightarrow> json option \<Rightarrow> client \<Rightarrow> client" where
  "handleQRCode ev ref c =
     (let c1 = (if keys c = None \<or> clientId c = None \<or> clientId c = Some []
                then generateKeys ev c else c)
      in if qrcode_ok ev then
           let c2 = log_line ''SCAN THIS QR CODE WITH YOUR WHATSAPP MOBILE APP'' (emit (Ev_qr ref) c1)
           in c2\<lparr>qrRefreshTimer := Some \<lparr> t_delay = real (qrTimeout (opts c2)), t_armed = True \<rparr>\<rparr>
         else emit Ev_qr_error (log_line ''Error generating QR code'' c1))"

text \<open>
  \<^verbatim>\<open>handleAuthSuccess\<close>: evaluating \<^verbatim>\<open>this.keys.encKey\<close> while \<^verbatim>\<open>this.keys\<close> is \<^verbatim>\<open>null\<close>
  raises a \<^verbatim>\<open>TypeError\<close> before anything is assigned.
\<close>

definition handleAuthSuccess :: "json \<Rightarrow> client \<Rightarrow> client outcome" where
  "handleAuthSuccess data c =
     (case keys c of
        None \<Rightarrow> Throw TypeError c
      | Some k \<Rightarrow>
          let u = \<lparr> user_id = get_prop data ''wid'', user_name = get_prop data ''pushname'',
                    user_phone = get_prop data ''phone'' \<rparr>;
              s = \<lparr> session_clientId = clientId c, serverToken = get_prop data ''session'',
                    clientToken = get_prop data ''clientToken'',
                    session_encKey = key_encKey k, session_macKey = key_macKey k, me = u \<rparr>;
              c1 = c\<lparr>session := Some s, user := Some u\<rparr>;
              prevState = state c1;
              c2 = emit (Ev_state_change prevState AUTHENTICATED) (c1\<lparr>state := AUTHENTICATED\<rparr>);
              c3 = emit (Ev_authenticated u s) c2;
              c4 = c3\<lparr>reconnectCount := 0, qrRetryCount := 0\<rparr>;
              c5 = (if qrRefreshTimer c4 \<noteq> None then c4\<lparr>qrRefreshTimer := None\<rparr> else c4)
          in Return (c5\<lparr>readyTimers := readyTimers c5 @ [\<lparr> t_delay = 1000, t_armed = True \<rparr>]\<rparr>))"

text \<open>
  The callback of the \<open>i\<close>-th settle-delay timer of \<^verbatim>\<open>handleAuthSuccess\<close>, when that timer
  fires.
\<close>

definition ready_timeout :: "nat \<Rightarrow> client \<Rightarrow> client" where
  "ready_timeout i c =
     (if i < length (readyTimers c) \<and> t_armed (readyTimers c ! i) then
        let c1 = c\<lparr>readyTimers := (readyTimers c)[i := disarm (readyTimers c ! i)]\<rparr>
        in if state c1 = AUTHENTICATED
           then emit Ev_ready (emit (Ev_state_change AUTHENTICATED READY) (c1\<lparr>state := READY\<rparr>))
           else c1
      else c)"

text \<open>The callback of the QR expiry timer, when the timer fires.\<close>

definition qr_timeout :: "env \<Rightarrow> client \<Rightarrow> client" where
  "qr_timeout ev c =
     (case qrRefreshTimer c of
        None \<Rightarrow> c
      | Some t \<Rightarrow>
          if t_armed t then
            let c1 = c\<lparr>qrRefreshTimer := Some (disarm t), qrRetryCount := qrRetryCount c + 1\<rparr>
            in if qrRetryCount c1 < qrMaxRetries (opts c1)
               then emit Ev_qr_expired (log_line ''QR code expired. Retrying'' c1)
               else disconnect ev
                      (emit Ev_qr_max_retries (log_line ''Maximum QR code retries reached'' c1))
          else c)"

section \<open>ProtocolManager: inbound messages\<close>

definition processJsonMessage :: "env \<Rightarrow> json \<Rightarrow> client \<Rightarrow> client outcome" where
  "processJsonMessage ev message c =
     (if nullish message then Throw TypeError c
      else if is_string (get_prop message ''status'') ''connected'' then
        Return (emit (Ev_connection_success message) c)
      else if is_string (get_prop message ''status'') ''connecting'' then
        Return (emit (Ev_connecting message) c)
      else if is_string (get_prop message ''status'') ''timeout'' then
        Return (emit (Ev_connection_timeout message)
                  (emit (Ev_state_change CONNECTING TIMEOUT) (c\<lparr>state := TIMEOUT\<rparr>)))
      else if is_string (get_prop message ''type'') ''qr'' then
        Return (handleQRCode ev (get_prop message ''ref'') (log_line ''Received QR code data'' c))
      else if is_string (get_prop message ''type'') ''success'' then
        handleAuthSuccess message (log_line ''Authentication successful'' c)
      else Return (emit (Ev_unknown_message message) c))"

definition processNotification :: "json \<Rightarrow> client \<Rightarrow> client" where
  "processNotification notification c =
     (if \<not> truthy (get_prop notification ''subtype'') then emit (Ev_notification notification) c
      else if is_string (get_prop notification ''subtype'') ''group'' then
        emit (Ev_handler ''handleGroupNotification'' notification) c
      else if is_string (get_prop notification ''subtype'') ''privacy'' then
        emit (Ev_privacy_notification notification) c
      else if is_string (get_prop notification ''subtype'') ''contact'' then
        emit (Ev_contact_notification notification) c
      else emit (Ev_notification notification) c)"

definition dispatch_content :: "json \<Rightarrow> client \<Rightarrow> client" where
  "dispatch_content message c =
     (case get_prop message ''data'' of
        None \<Rightarrow> c
      | Some d \<Rightarrow>
          if truthy (Some d) \<and> truthy (get_prop d ''type'') then
            (if is_string (get_prop d ''type'') ''message'' then
               emit (Ev_handler ''handleIncomingMessage'' d) c
             else if is_string (get_prop d ''type'') ''receipt'' then
               emit (Ev_handler ''handleReceipt'' d) c
             else if is_string (get_prop d ''type'') ''presence'' then emit (Ev_presence d) c
             else if is_string (get_prop d ''type'') ''notification'' then processNotification d c
             else emit (Ev_binary_message d) c)
          else c)"

text \<open>
  \<^verbatim>\<open>_processBinaryMessage\<close>. The keys of \<^verbatim>\<open>callbacks\<close> are strings, so only a string tag
  can find a callback.
\<close>

definition processBinaryMessage :: "decoded \<Rightarrow> client \<Rightarrow> client outcome" where
  "processBinaryMessage message c =
     (case message of
        RawData b \<Rightarrow> Return (log_line ''Received binary message without tag'' c)
      | Parsed m \<Rightarrow>
          if nullish m then Throw TypeError c
          else if \<not> truthy (get_prop m ''tag'') then
            Return (log_line ''Received binary message without tag'' c)
          else
            let c1 = (case get_prop m ''tag'' of
                        Some (JString t) \<Rightarrow>
                          (case map_of (callbacks c) t of
                             Some rid \<Rightarrow>
                               (reply_callback rid m c)\<lparr>callbacks := AList.delete t (callbacks c)\<rparr>
                           | None \<Rightarrow> c)
                      | _ \<Rightarrow> c)
            in Return (dispatch_content m c1))"

definition processMessage :: "env \<Rightarrow> buffer \<Rightarrow> client \<Rightarrow> client" where
  "processMessage ev buffer c =
     (if length buffer < 4 \<or> buffer ! 0 \<noteq> WA_MAGIC ! 0 \<or> buffer ! 1 \<noteq> WA_MAGIC ! 1 then
        log_line ''Received invalid message format'' c
      else
        let messageType = buffer ! 2;
            messageData = drop 4 buffer
        in if messageType = WA_PREFIX_INFO ! 0 then
             (case JSON_parse messageData of
                None \<Rightarrow> log_line ''Error parsing JSON message'' c
              | Some jsonMessage \<Rightarrow>
                  (case processJsonMessage ev jsonMessage (log_line ''Received JSON message'' c) of
                     Return c' \<Rightarrow> c'
                   | Throw e c' \<Rightarrow> log_line ''Error parsing JSON message'' c'))
           else if messageType = WA_PREFIX_BINARY ! 0 then
             (case processBinaryMessage (BinaryDecoder_decode messageData)
                     (log_line ''Received binary message'' c) of
                Return c' \<Rightarrow> c'
              | Throw e c' \<Rightarrow> log_line ''Error decoding binary message'' c')
           else log_line ''Received unknown message type'' c)"

definition onWebSocketMessage :: "env \<Rightarrow> buffer \<Rightarrow> client \<Rightarrow> client" where
  "onWebSocketMessage ev data c = processMessage ev data c"

section \<open>PairingCodeAuth\<close>

text \<open>
  The handler keeps its own client identifier and keys; it reaches the client through
  \<^verbatim>\<open>emit\<close>, \<^verbatim>\<open>log\<close> and \<^verbatim>\<open>protocolManager.sendJSON\<close>. \<^verbatim>\<open>requestPairingCode\<close> awaits the
  promise of \<^verbatim>\<open>sendJSON\<close>, which \<^verbatim>\<open>ws.send\<close> settles through its callback (\<open>send_error\<close>).
\<close>

record pairing =
  pairing_clientId :: "string option"
  pairing_keys :: "keypair option"

definition pairing_generateKeys :: "env \<Rightarrow> pairing \<times> client \<Rightarrow> pairing \<times> client" where
  "pairing_generateKeys ev pc =
     (\<lparr> pairing_clientId = Some (hex (randomBytes16 ev)),
        pairing_keys = Some \<lparr> key_private = randomBytes32 ev,
                               key_public = makeKeyPair ev (randomBytes32 ev),
                               key_encKey = None, key_macKey = None \<rparr> \<rparr>,
      log_line ''Generated new client ID and keys for pairing code authentication'' (snd pc))"

definition to_upper :: "char \<Rightarrow> char" where
  "to_upper c =
     (if (97::nat) \<le> of_char c \<and> (of_char c :: nat) \<le> 122 then char_of (of_char c - (32::nat))
      else c)"

definition formatPhone :: "string \<Rightarrow> string" where
  "formatPhone phoneNumber =
     (if CHR ''@'' \<in> set phoneNumber then phoneNumber
      else filter is_digit phoneNumber @ ''@s.whatsapp.net'')"

definition pairingMessage :: "env \<Rightarrow> keypair \<Rightarrow> string \<Rightarrow> json" where
  "pairingMessage ev k formattedPhone =
     JObject [(''type'', JString ''request_pair''),
              (''ref'', JString (map to_upper (hex (randomBytes8 ev)))),
              (''publicKey'', JString (base64 ev (key_public k))),
              (''phone'', JString formattedPhone)]"

definition requestPairingCode :: "env \<Rightarrow> string \<Rightarrow> pairing \<times> client \<Rightarrow> pairing \<times> client" where
  "requestPairingCode ev phoneNumber pc =
     (let pc1 = (if pairing_keys (fst pc) = None \<or> pairing_clientId (fst pc) = None
                    \<or> pairing_clientId (fst pc) = Some []
                 then pairing_generateKeys ev pc else pc);
          pa = fst pc1;
          c = snd pc1;
          failed = (\<lambda>e c'. emit (Ev_pairing_code_error (Exception e))
                              (log_line ''Error requesting pairing code'' c'))
      in case pairing_keys pa of
           None \<Rightarrow> (pa, failed TypeError c)
         | Some k \<Rightarrow>
             let formattedPhone = formatPhone phoneNumber;
                 c1 = emit (Ev_pairing_code_request formattedPhone) c
             in case sendJSON (pairingMessage ev k formattedPhone) c1 of
                  Throw e c2 \<Rightarrow> (pa, failed e c2)
                | Return c2 \<Rightarrow>
                    (case send_error ev of
                       Some e \<Rightarrow> (pa, failed e c2)
                     | None \<Rightarrow> (pa, log_line ''Pairing code requested'' c2)))"

definition js_or :: "json option \<Rightarrow> json \<Rightarrow> json" where
  "js_or v d = (case v of None \<Rightarrow> d | Some x \<Rightarrow> if truthy v then x else d)"

definition handlePairingCodeResponse :: "json \<Rightarrow> client \<Rightarrow> client outcome" where
  "handlePairingCodeResponse data c =
     (if nullish data then Throw TypeError c
      else if is_string (get_prop data ''type'') ''pair_success'' then
        Return (emit (Ev_pairing_code (get_prop data ''code''))
                  (log_line ''Pairing code generated successfully'' c))
      else if is_string (get_prop data ''type'') ''pair_error'' then
        Return (emit (Ev_pairing_code_error
                        (Reason (js_or (get_prop data ''reason'') (JString ''Unknown error''))))
                  (log_line ''Error generating pairing code'' c))
      else Return c)"

section \<open>Runs of the client\<close>

text \<open>
  Everything that can happen to a client: calls of its interface, socket events, timers
  firing, and the callbacks of the send primitives. A socket event first updates the
  \<^verbatim>\<open>readyState\<close> of the socket. \<open>Reply\<close> hands a decoded tagged message to
  \<^verbatim>\<open>_processBinaryMessage\<close>.
\<close>

datatype input =
    Connect
  | Disconnect
  | WsOpen
  | WsMessage buffer
  | WsClose int string
  | WsError
  | ReconnectTimer
  | QrTimer
  | ReadyTimer nat
  | RequestTimer nat
  | SendCallback nat "js_error option"
  | GenerateTag
  | SendBinary "(string \<times> json) list" "nat option"
  | SendJSON json
  | Reply decoded

definition set_readyState :: "ready_state \<Rightarrow> client \<Rightarrow> client" where
  "set_readyState r c = c\<lparr>ws := map_option (\<lambda>_. r) (ws c)\<rparr>"

fun step :: "env \<Rightarrow> input \<Rightarrow> client \<Rightarrow> client" where
  "step ev Connect c = connect ev c"
| "step ev Disconnect c = disconnect ev c"
| "step ev WsOpen c = onWebSocketOpen (set_readyState WS_OPEN c)"
| "step ev (WsMessage data) c = onWebSocketMessage ev data c"
| "step ev (WsClose code reason) c = onWebSocketClose code reason (set_readyState WS_CLOSED c)"
| "step ev WsError c = onWebSocketError c"
| "step ev ReconnectTimer c = reconnect_timeout ev c"
| "step ev QrTimer c = qr_timeout ev c"
| "step ev (ReadyTimer i) c = ready_timeout i c"
| "step ev (RequestTimer rid) c = request_timeout rid c"
| "step ev (SendCallback rid err) c = send_callback rid err c"
| "step ev GenerateTag c = snd (generateMessageTag ev c)"
| "step ev (SendBinary node timeout_opt) c = state_of (sendBinary ev node None timeout_opt c)"
| "step ev (SendJSON data) c = state_of (sendJSON data c)"
| "step ev (Reply message) c = state_of (processBinaryMessage message c)"

fun run :: "(env \<times> input) list \<Rightarrow> client \<Rightarrow> client" where
  "run [] c = c"
| "run ((ev, i) # rest) c = run rest (step ev i c)"

section \<open>Invariants of the client\<close>

text \<open>
  The options are never changed, and the attempt counter stays within the configured
  maximum: this holds in every state a client can reach.
\<close>

definition reconnect_inv :: "options \<Rightarrow> client \<Rightarrow> bool" where
  "reconnect_inv os c \<longleftrightarrow> opts c = os \<and> reconnectCount c \<le> maxReconnects os"

text \<open>
  The counter part of a tag: the digits after its last \<^verbatim>\<open>-\<close>. The registry invariant says
  that the requests were issued with strictly increasing counters below the current
  counter, that a request is pending exactly while its timeout timer is armed, that every
  settled promise has one of the three permitted causes (\<open>explained\<close>, with \<open>E\<close> the errors
  reported by \<^verbatim>\<open>ws.send\<close>), and that each registered callback belongs to the request with
  that tag.
\<close>

definition tag_counter :: "string \<Rightarrow> nat" where
  "tag_counter t = digits_val (rev (takeWhile (\<lambda>c. c \<noteq> CHR ''-'') (rev t)))"

fun reported_error :: "input \<Rightarrow> js_error list" where
  "reported_error (SendCallback rid (Some e)) = [e]"
| "reported_error _ = []"

definition send_errors :: "(env \<times> input) list \<Rightarrow> js_error set" where
  "send_errors ins = set (concat (map (reported_error \<circ> snd) ins))"

fun explained :: "js_error set \<Rightarrow> string \<Rightarrow> promise \<Rightarrow> bool" where
  "explained E tag Pending = True"
| "explained E tag (Resolved m) = (get_prop m ''tag'' = Some (JString tag))"
| "explained E tag (Rejected e) = (e = Error ''Response timeout'' \<or> e \<in> E)"

definition registry_inv :: "js_error set \<Rightarrow> client \<Rightarrow> bool" where
  "registry_inv E c \<longleftrightarrow>
     sorted_wrt (<) (map (tag_counter \<circ> rq_tag) (requests c)) \<and>
     (\<forall>r \<in> set (requests c).
        tag_counter (rq_tag r) < messageTagCounter c \<and>
        (rq_promise r = Pending \<longleftrightarrow> t_armed (rq_timer r)) \<and>
        explained E (rq_tag r) (rq_promise r)) \<and>
     (\<forall>(t, rid) \<in> set (callbacks c). rid < length (requests c) \<and> rq_tag (requests c ! rid) = t)"

definition registry :: "client \<Rightarrow> request list \<times> (string \<times> nat) list \<times> nat" where
  "registry c = (requests c, callbacks c, messageTagCounter c)"

fun touches_registry :: "input \<Rightarrow> bool" where
  "touches_registry (RequestTimer rid) = True"
| "touches_registry (SendCallback rid err) = True"
| "touches_registry GenerateTag = True"
| "touches_registry (SendBinary node timeout_opt) = True"
| "touches_registry (Reply message) = True"
| "touches_registry _ = False"

definition keeps_settled :: "client \<Rightarrow> client \<Rightarrow> bool" where
  "keeps_settled c c' \<longleftrightarrow>
     length (requests c) \<le> length (requests c') \<and>
     (\<forall>rid < length (requests c).
        rq_tag (requests c' ! rid) = rq_tag (requests c ! rid) \<and>
        (rq_promise (requests c ! rid) \<noteq> Pending \<longrightarrow>
           rq_promise (requests c' ! rid) = rq_promise (requests c ! rid)))"

section \<open>Sample values for closed instances\<close>

text \<open>
  A sample environment, whose functions \<open>makeKeyPair\<close> and \<open>base64\<close> stand for results of the
  libraries, and the clients, messages and runs at which the theorems below are
  instantiated.
\<close>

definition env0 :: env where
  "env0 =
     \<lparr> now = 1700000000000, randomBytes16 = replicate 16 (CHR 0x01),
       randomBytes32 = replicate 32 (CHR 0x02), randomBytes8 = replicate 8 (CHR 0xAB),
       makeKeyPair = (\<lambda>b. b), base64 = (\<lambda>b. ''AgICAg==''),
       websocket_ok = True, qrcode_ok = True, send_error = None \<rparr>"

definition ready_client :: client where
  "ready_client = (new_client default_options)\<lparr>state := READY, ws := Some WS_OPEN\<rparr>"

definition connected_message :: json where
  "connected_message = JObject [(''status'', JString ''connected'')]"

fun is_state_change :: "event \<Rightarrow> bool" where
  "is_state_change (Ev_state_change a b) = True"
| "is_state_change _ = False"

definition success_message :: json where
  "success_message =
     JObject [(''type'', JString ''success''), (''session'', JString ''S1''),
              (''clientToken'', JString ''C1''), (''wid'', JString ''123@s'')]"

definition success_text :: string where
  "success_text =
     ''{\"type\":\"success\",\"session\":\"S1\",\"clientToken\":\"C1\",\"wid\":\"123@s\"}''"

definition stored_session :: session where
  "stored_session =
     \<lparr> session_clientId = Some ''0a0b'', serverToken = Some (JString ''S0''),
       clientToken = Some (JString ''C0''), session_encKey = None, session_macKey = None,
       me = \<lparr> user_id = Some (JString ''123@s''), user_name = None, user_phone = None \<rparr> \<rparr>"

definition connecting_client :: client where
  "connecting_client = connect env0 (new_client default_options)"

definition authenticated_client :: client where
  "authenticated_client = state_of (handleAuthSuccess success_message connecting_client)"

definition pair_error_missing :: json where
  "pair_error_missing =
     JObject [(''type'', JString ''pair_error''), (''reason'', JString ''missing'')]"

definition fresh_pairing :: pairing where
  "fresh_pairing = \<lparr> pairing_clientId = None, pairing_keys = None \<rparr>"

definition pending_client :: client where
  "pending_client =
     state_of (sendBinary env0 [(''type'', JString ''query'')] None None ready_client)"

definition qr_client :: client where
  "qr_client =
     pending_client\<lparr> qrRetryCount := 2,
                     qrRefreshTimer := Some \<lparr> t_delay = 60000, t_armed = True \<rparr> \<rparr>"

definition third_attempt :: client where
  "third_attempt = (new_client default_options)\<lparr>reconnectCount := 2\<rparr>"

definition exhausted :: client where
  "exhausted = (new_client default_options)\<lparr>reconnectCount := 5\<rparr>"

definition query_node :: "(string \<times> json) list" where
  "query_node = [(''type'', JString ''query'')]"

definition reply0 :: json where
  "reply0 = JObject [(''tag'', JString ''1700000000000.--0''),
                     (''data'', JObject [(''status'', JNumber 200 0)])]"

definition sample_run :: "(env \<times> input) list" where
  "sample_run =
     [(env0, SendBinary query_node None), (env0, SendBinary query_node (Some 5000)),
      (env0, Reply (Parsed reply0)), (env0, SendCallback 0 (Some (Error ''socket closed''))),
      (env0, RequestTimer 1), (env0, RequestTimer 0)]"

section \<open>Explicit disconnect and the logout message\<close>

lemma disconnect_unfold:
  "disconnect ev c =
     (if state c = DISCONNECTED then c
      else log_line ''Disconnected from WhatsApp Web servers''
             (emit (Ev_disconnected None)
                (emit (Ev_state_change (state c) DISCONNECTED)
                   (c\<lparr>state := DISCONNECTED, reconnectTimer := None,
                       qrRefreshTimer := None, ws := None\<rparr>))))"
  by (simp add: disconnect_def Let_def emit_def log_line_def)

lemma sendLogout_sends:
  "ws_open c \<Longrightarrow> length (sent (sendLogout ev c)) = Suc (length (sent c))"
  by (simp add: sendLogout_def sendBinary_def generateMessageTag_def ws_open_def Let_def
      split: prod.splits)

text \<open>
  Claim C10. Whatever the connection state before the call, \<^verbatim>\<open>disconnect()\<close> hands no frame
  to the socket, registers no tagged request and generates no tag: the branch that would
  call \<^verbatim>\<open>sendLogout\<close> tests the state after it has been overwritten with \<open>DISCONNECTED\<close>, so
  it is never taken.
\<close>

theorem disconnect_never_sends_logout:
  "sent (disconnect ev c) = sent c \<and>
   requests (disconnect ev c) = requests c \<and>
   callbacks (disconnect ev c) = callbacks c \<and>
   messageTagCounter (disconnect ev c) = messageTagCounter c"
  by (simp add: disconnect_unfold emit_def log_line_def)

text \<open>
  The instance at a client that is \<open>READY\<close> with an open socket: a direct call of
  \<^verbatim>\<open>sendLogout\<close> would send one frame there, \<^verbatim>\<open>disconnect()\<close> sends none.
\<close>

theorem disconnect_never_sends_logout_witness:
  "state ready_client = READY \<and> ws_open ready_client \<and>
   sent (disconnect env0 ready_client) = [] \<and>
   length (sent (sendLogout env0 ready_client)) = 1"
proof -
  have open_socket: "ws_open ready_client"
    by (simp add: ready_client_def ws_open_def)
  have nothing_sent: "sent ready_client = []"
    by (simp add: ready_client_def new_client_def)
  have "sent (disconnect env0 ready_client) = sent ready_client"
    using disconnect_never_sends_logout [of env0 ready_client] by simp
  moreover have "length (sent (sendLogout env0 ready_client)) = Suc (length (sent ready_client))"
    using open_socket by (rule sendLogout_sends)
  moreover have "state ready_client = READY"
    by (simp add: ready_client_def)
  ultimately show ?thesis
    using open_socket nothing_sent by simp
qed

section \<open>Inbound frames: classification and decoding\<close>

text \<open>No JSON text starts with a NUL byte: it is neither white space nor the start of a value.\<close>

lemma parse_value_nul: "parse_value (Suc n) (CHR 0x00 # cs) = None"
  by (simp add: parse_number_def is_digit_def)

lemma JSON_parse_nul: "JSON_parse (CHR 0x00 # cs) = None"
proof -
  have "skip_ws (CHR 0x00 # cs) = CHR 0x00 # cs"
    by (simp add: skip_ws_def is_ws_def)
  moreover have "2 * length (CHR 0x00 # cs) + 2 = Suc (2 * length (CHR 0x00 # cs) + 1)"
    by simp
  ultimately show ?thesis
    unfolding JSON_parse_def by (simp only: parse_value_nul option.case)
qed

lemma JSON_parse_one: "JSON_parse ''1'' = Some (JNumber 1 0)"
  by code_simp

lemma JSON_parse_empty_object: "JSON_parse ''{}'' = Some (JObject [])"
  by code_simp

text \<open>
  \<^verbatim>\<open>processMessage\<close> compares the third byte of the frame with \<^verbatim>\<open>WA_PREFIX_INFO[0]\<close> and then
  with \<^verbatim>\<open>WA_PREFIX_BINARY[0]\<close>. Both are 6, so the second comparison is never reached with
  a different outcome: the branch that calls the binary decoder is dead.
\<close>

lemma processMessage_binary_branch_unreachable:
  "processMessage ev buffer c =
     (if length buffer < 4 \<or> buffer ! 0 \<noteq> WA_MAGIC ! 0 \<or> buffer ! 1 \<noteq> WA_MAGIC ! 1 then
        log_line ''Received invalid message format'' c
      else if buffer ! 2 = CHR 0x06 then
        (case JSON_parse (drop 4 buffer) of
           None \<Rightarrow> log_line ''Error parsing JSON message'' c
         | Some jsonMessage \<Rightarrow>
             (case processJsonMessage ev jsonMessage (log_line ''Received JSON message'' c) of
                Return c' \<Rightarrow> c'
              | Throw e c' \<Rightarrow> log_line ''Error parsing JSON message'' c'))
      else log_line ''Received unknown message type'' c)"
  by (simp add: processMessage_def WA_PREFIX_INFO_def WA_PREFIX_BINARY_def Let_def)

text \<open>
  What the guard of \<^verbatim>\<open>processMessage\<close> does reject: a buffer of fewer than four bytes, or one
  that does not start with the magic bytes, is logged as invalid and nothing else happens.
\<close>

lemma processMessage_rejects:
  assumes "length buffer < 4 \<or> take 2 buffer \<noteq> WA_MAGIC"
  shows "processMessage ev buffer c = log_line ''Received invalid message format'' c"
proof (cases "length buffer < 4")
  case True
  then show ?thesis by (simp add: processMessage_def)
next
  case False
  then obtain a b rest where "buffer = a # b # rest"
    by (cases buffer; cases "tl buffer"; simp)
  with assms False show ?thesis
    by (auto simp: processMessage_def WA_MAGIC_def)
qed

text \<open>
  Claim C2 (the code departs from it). A frame made of the magic bytes, the tagged-binary
  descriptor \<^verbatim>\<open>WA_PREFIX_BINARY\<close> and any payload is sent down the structured path: its third
  byte equals \<^verbatim>\<open>WA_PREFIX_INFO[0]\<close>, the bytes from offset 4 on (the last two descriptor bytes
  and the payload) are given to \<^verbatim>\<open>JSON.parse\<close>, which fails, and the frame ends as a logged
  parse error. The binary decoder and the tag-callback registry are never reached.
\<close>

theorem binary_frame_takes_structured_path:
  "processMessage ev (WA_MAGIC @ WA_PREFIX_BINARY @ payload) c =
     log_line ''Error parsing JSON message'' c"
  by (simp add: processMessage_def WA_MAGIC_def WA_PREFIX_BINARY_def WA_PREFIX_INFO_def
      JSON_parse_nul)

theorem binary_frame_takes_structured_path_witness:
  "WA_MAGIC @ WA_PREFIX_BINARY @ ''{\"tag\":\"t1\"}'' =
     [CHR 0x57, CHR 0x41, CHR 0x06, CHR 0x01, CHR 0x00, CHR 0x00] @ ''{\"tag\":\"t1\"}'' \<and>
   logged (processMessage env0 (WA_MAGIC @ WA_PREFIX_BINARY @ ''{\"tag\":\"t1\"}'') ready_client) =
     [''Error parsing JSON message''] \<and>
   requests (processMessage env0 (WA_MAGIC @ WA_PREFIX_BINARY @ ''{\"tag\":\"t1\"}'') ready_client) = [] \<and>
   emitted (processMessage env0 (WA_MAGIC @ WA_PREFIX_BINARY @ ''{\"tag\":\"t1\"}'') ready_client) = []"
  using binary_frame_takes_structured_path [of env0 "''{\"tag\":\"t1\"}''" ready_client]
  by (simp add: log_line_def ready_client_def new_client_def WA_MAGIC_def WA_PREFIX_BINARY_def)

text \<open>
  Claim C4 (the code departs from it). The guard of \<^verbatim>\<open>processMessage\<close> tests for fewer than
  four bytes, while the header written by \<^verbatim>\<open>sendJSON\<close> and \<^verbatim>\<open>sendBinary\<close> has six. The
  five-byte buffer \<^verbatim>\<open>57 41 06 00 31\<close> has the magic bytes and is shorter than the header, yet
  it is not rejected as malformed: byte 4 is parsed as the JSON document \<^verbatim>\<open>1\<close> and
  dispatched, which emits \<^verbatim>\<open>unknown_message\<close>.
\<close>

theorem short_frame_is_dispatched:
  "processMessage ev [CHR 0x57, CHR 0x41, CHR 0x06, CHR 0x00, CHR ''1''] c =
     emit (Ev_unknown_message (JNumber 1 0)) (log_line ''Received JSON message'' c)"
  by (simp add: processMessage_def WA_MAGIC_def WA_PREFIX_INFO_def JSON_parse_one
      processJsonMessage_def nullish_def is_string_def)

theorem short_frame_is_dispatched_witness:
  "length [CHR 0x57, CHR 0x41, CHR 0x06, CHR 0x00, CHR ''1''] < length (WA_MAGIC @ WA_PREFIX_INFO) \<and>
   emitted (processMessage env0 [CHR 0x57, CHR 0x41, CHR 0x06, CHR 0x00, CHR ''1''] ready_client) =
     [Ev_unknown_message (JNumber 1 0)] \<and>
   logged (processMessage env0 [CHR 0x57, CHR 0x41, CHR 0x06, CHR 0x00, CHR ''1''] ready_client) =
     [''Received JSON message'']"
  using short_frame_is_dispatched [of env0 ready_client]
  by (simp add: emit_def log_line_def ready_client_def new_client_def WA_MAGIC_def
      WA_PREFIX_INFO_def)

text \<open>
  Claim C5 (the code departs from it). \<^verbatim>\<open>sendJSON\<close> on an open socket sends the frame
  magic + \<^verbatim>\<open>WA_PREFIX_INFO\<close> + \<^verbatim>\<open>JSON.stringify(p)\<close>. \<^verbatim>\<open>processMessage\<close> takes the payload from
  offset 4 instead of 6, so for every \<open>p\<close> it parses two NUL bytes followed by the
  document: the parse fails, the frame is logged as a parse error and \<open>p\<close> is not recovered.
\<close>

theorem sendJSON_frame_does_not_round_trip:
  "ws_open c \<Longrightarrow>
     sent (state_of (sendJSON p c)) = sent c @ [WA_MAGIC @ WA_PREFIX_INFO @ stringify p] \<and>
     processMessage ev (WA_MAGIC @ WA_PREFIX_INFO @ stringify p) c' =
       log_line ''Error parsing JSON message'' c'"
  by (simp add: sendJSON_def state_of_def processMessage_def WA_MAGIC_def WA_PREFIX_INFO_def
      JSON_parse_nul)

theorem sendJSON_frame_does_not_round_trip_witness:
  "ws_open ready_client \<and>
   sent (state_of (sendJSON (JObject []) ready_client)) =
     [[CHR 0x57, CHR 0x41, CHR 0x06, CHR 0x00, CHR 0x00, CHR 0x00, CHR ''{'', CHR ''}'']] \<and>
   JSON_parse ''{}'' = Some (JObject []) \<and>
   emitted (processMessage env0 (WA_MAGIC @ WA_PREFIX_INFO @ stringify (JObject [])) ready_client) = [] \<and>
   logged (processMessage env0 (WA_MAGIC @ WA_PREFIX_INFO @ stringify (JObject [])) ready_client) =
     [''Error parsing JSON message'']"
proof -
  have open_socket: "ws_open ready_client"
    by (simp add: ready_client_def ws_open_def)
  show ?thesis
    using sendJSON_frame_does_not_round_trip [OF open_socket, of "JObject []" env0 ready_client]
      open_socket JSON_parse_empty_object
    by (simp add: log_line_def ready_client_def new_client_def WA_MAGIC_def WA_PREFIX_INFO_def)
qed

section \<open>The connected status message\<close>

lemma processJsonMessage_connected:
  "is_string (get_prop message ''status'') ''connected'' \<Longrightarrow>
   processJsonMessage ev message c = Return (emit (Ev_connection_success message) c)"
  by (auto simp: processJsonMessage_def nullish_def is_string_def)

lemma state_onWebSocketOpen: "state (onWebSocketOpen c) = CONNECTED"
  by (simp add: onWebSocketOpen_def sendInitialMessage_def sendJSON_def state_of_def Let_def
      emit_def log_line_def)

lemma state_connect:
  "state c = DISCONNECTED \<Longrightarrow> websocket_ok ev \<Longrightarrow> state (connect ev c) = CONNECTING"
  by (simp add: connect_def Let_def emit_def log_line_def generateKeys_def)

text \<open>
  Claim C1 fails on the code. \<open>ConnectionState\<close> has no state between \<open>CONNECTED\<close> and
  \<open>AUTHENTICATED\<close>, and the branch of \<^verbatim>\<open>_processJsonMessage\<close> for \<^verbatim>\<open>status === 'connected'\<close>
  only emits \<^verbatim>\<open>connection_success\<close>. On a fresh client after \<^verbatim>\<open>connect()\<close>, processing
  \<^verbatim>\<open>{status:"connected"}\<close> leaves the state \<open>CONNECTING\<close>; with the transport-open step in
  between, the state rests in \<open>CONNECTED\<close>, and the only state changes emitted are
  \<open>DISCONNECTED\<close> to \<open>CONNECTING\<close> and \<open>CONNECTING\<close> to \<open>CONNECTED\<close>.
\<close>

theorem connected_status_counterexample:
  "state (connect env0 (new_client default_options)) = CONNECTING \<and>
   state (state_of (processJsonMessage env0 connected_message
            (connect env0 (new_client default_options)))) = CONNECTING \<and>
   state (state_of (processJsonMessage env0 connected_message
            (onWebSocketOpen (set_readyState WS_OPEN
               (connect env0 (new_client default_options)))))) = CONNECTED \<and>
   filter is_state_change
     (emitted (state_of (processJsonMessage env0 connected_message
        (onWebSocketOpen (set_readyState WS_OPEN
           (connect env0 (new_client default_options))))))) =
     [Ev_state_change DISCONNECTED CONNECTING, Ev_state_change CONNECTING CONNECTED]"
  by (simp add: connected_message_def processJsonMessage_def nullish_def is_string_def
      state_of_def connect_def env0_def new_client_def default_options_def onWebSocketOpen_def
      set_readyState_def sendInitialMessage_def sendJSON_def ws_open_def Let_def emit_def
      log_line_def generateKeys_def)

text \<open>
  Claim C1 as amended. On a disconnected client \<^verbatim>\<open>connect()\<close> moves the state to
  \<open>CONNECTING\<close> (when the socket can be created), the transport-open handler moves it to
  \<open>CONNECTED\<close>, and processing a structured message whose status is \<^verbatim>\<open>"connected"\<close> emits
  \<^verbatim>\<open>connection_success\<close> with that message and leaves the connection state as it is: the
  state machine rests in \<open>CONNECTED\<close>.
\<close>

theorem connected_status_keeps_state:
  assumes "state c = DISCONNECTED" and "websocket_ok ev"
    and "is_string (get_prop message ''status'') ''connected''"
  shows "state (connect ev c) = CONNECTING \<and>
         state (onWebSocketOpen (set_readyState WS_OPEN (connect ev c))) = CONNECTED \<and>
         processJsonMessage ev' message c' = Return (emit (Ev_connection_success message) c') \<and>
         state (emit (Ev_connection_success message) c') = state c'"
  using assms
  by (simp add: processJsonMessage_connected state_onWebSocketOpen state_connect emit_def)

theorem connected_status_keeps_state_witness:
  "state (new_client default_options) = DISCONNECTED \<and> websocket_ok env0 \<and>
   is_string (get_prop connected_message ''status'') ''connected'' \<and>
   state (connect env0 (new_client default_options)) = CONNECTING \<and>
   state (onWebSocketOpen (set_readyState WS_OPEN
            (connect env0 (new_client default_options)))) = CONNECTED \<and>
   processJsonMessage env0 connected_message ready_client =
     Return (emit (Ev_connection_success connected_message) ready_client) \<and>
   state (emit (Ev_connection_success connected_message) ready_client) = READY"
proof -
  have fresh: "state (new_client default_options) = DISCONNECTED"
    by (simp add: new_client_def)
  have socket: "websocket_ok env0"
    by (simp add: env0_def)
  have status: "is_string (get_prop connected_message ''status'') ''connected''"
    by (simp add: connected_message_def is_string_def)
  have "state ready_client = READY"
    by (simp add: ready_client_def)
  with connected_status_keeps_state [OF fresh socket status, of env0 ready_client]
    fresh socket status
  show ?thesis by simp
qed

section \<open>Session materialisation\<close>

text \<open>
  Without a key object the handler throws before it changes anything. A client that was
  given a session by \<^verbatim>\<open>restoreSession\<close> before its first \<^verbatim>\<open>connect()\<close> is in that situation,
  since \<^verbatim>\<open>connect()\<close> generates keys only when there is no session.
\<close>

lemma handleAuthSuccess_without_keys:
  "keys c = None \<Longrightarrow> handleAuthSuccess data c = Throw TypeError c"
  by (simp add: handleAuthSuccess_def)

lemma ready_timeout_effect:
  assumes "i < length (readyTimers d)" and "t_armed (readyTimers d ! i)"
  shows "state (ready_timeout i d) = (if state d = AUTHENTICATED then READY else state d) \<and>
         emitted (ready_timeout i d) =
           emitted d @ (if state d = AUTHENTICATED
                        then [Ev_state_change AUTHENTICATED READY, Ev_ready] else [])"
  using assms by (simp add: ready_timeout_def Let_def emit_def)

text \<open>
  On a handler that holds a key object \<open>k\<close>, as after a \<^verbatim>\<open>connect()\<close> without a stored
  session, and for every success message \<open>data\<close>:
  \<^verbatim>\<open>handleAuthSuccess\<close> returns normally; the session it stores has the message's \<^verbatim>\<open>session\<close>
  field as server token, its \<^verbatim>\<open>clientToken\<close> field as client token, its \<^verbatim>\<open>wid\<close>, \<^verbatim>\<open>pushname\<close>
  and \<^verbatim>\<open>phone\<close> fields as identity, the handler's client identifier and the \<^verbatim>\<open>encKey\<close> and
  \<^verbatim>\<open>macKey\<close> properties of its key object; the state is \<open>AUTHENTICATED\<close> at once and the
  events emitted are the state change and \<^verbatim>\<open>authenticated\<close>; both counters are zero, the QR
  expiry timer is cleared, and one settle timer of 1000 ms is armed. When a settle timer
  fires in a state \<open>d\<close>, the state becomes \<open>READY\<close> and \<^verbatim>\<open>ready\<close> is emitted exactly if the
  state of \<open>d\<close> is still \<open>AUTHENTICATED\<close>; otherwise nothing changes.
\<close>

lemma handleAuthSuccess_with_keys:
  assumes "keys c = Some k"
    and "i < length (readyTimers d)" and "t_armed (readyTimers d ! i)"
  shows
    "(\<exists>c'. handleAuthSuccess data c = Return c') \<and>
     session (state_of (handleAuthSuccess data c)) =
       Some \<lparr> session_clientId = clientId c, serverToken = get_prop data ''session'',
              clientToken = get_prop data ''clientToken'',
              session_encKey = key_encKey k, session_macKey = key_macKey k,
              me = \<lparr> user_id = get_prop data ''wid'', user_name = get_prop data ''pushname'',
                     user_phone = get_prop data ''phone'' \<rparr> \<rparr> \<and>
     state (state_of (handleAuthSuccess data c)) = AUTHENTICATED \<and>
     emitted (state_of (handleAuthSuccess data c)) =
       emitted c @
         [Ev_state_change (state c) AUTHENTICATED,
          Ev_authenticated
            \<lparr> user_id = get_prop data ''wid'', user_name = get_prop data ''pushname'',
              user_phone = get_prop data ''phone'' \<rparr>
            \<lparr> session_clientId = clientId c, serverToken = get_prop data ''session'',
              clientToken = get_prop data ''clientToken'',
              session_encKey = key_encKey k, session_macKey = key_macKey k,
              me = \<lparr> user_id = get_prop data ''wid'', user_name = get_prop data ''pushname'',
                     user_phone = get_prop data ''phone'' \<rparr> \<rparr>] \<and>
     reconnectCount (state_of (handleAuthSuccess data c)) = 0 \<and>
     qrRetryCount (state_of (handleAuthSuccess data c)) = 0 \<and>
     qrRefreshTimer (state_of (handleAuthSuccess data c)) = None \<and>
     readyTimers (state_of (handleAuthSuccess data c)) =
       readyTimers c @ [\<lparr> t_delay = 1000, t_armed = True \<rparr>] \<and>
     state (ready_timeout i d) = (if state d = AUTHENTICATED then READY else state d) \<and>
     emitted (ready_timeout i d) =
       emitted d @ (if state d = AUTHENTICATED
                    then [Ev_state_change AUTHENTICATED READY, Ev_ready] else [])"
proof -
  have "\<exists>c'. handleAuthSuccess data c = Return c'"
    using assms(1) by (simp add: handleAuthSuccess_def Let_def)
  moreover have "session (state_of (handleAuthSuccess data c)) =
       Some \<lparr> session_clientId = clientId c, serverToken = get_prop data ''session'',
              clientToken = get_prop data ''clientToken'',
              session_encKey = key_encKey k, session_macKey = key_macKey k,
              me = \<lparr> user_id = get_prop data ''wid'', user_name = get_prop data ''pushname'',
                     user_phone = get_prop data ''phone'' \<rparr> \<rparr>"
    using assms(1) by (simp add: handleAuthSuccess_def state_of_def Let_def emit_def)
  moreover have "state (state_of (handleAuthSuccess data c)) = AUTHENTICATED"
    using assms(1) by (simp add: handleAuthSuccess_def state_of_def Let_def emit_def)
  moreover have "emitted (state_of (handleAuthSuccess data c)) =
       emitted c @
         [Ev_state_change (state c) AUTHENTICATED,
          Ev_authenticated
            \<lparr> user_id = get_prop data ''wid'', user_name = get_prop data ''pushname'',
              user_phone = get_prop data ''phone'' \<rparr>
            \<lparr> session_clientId = clientId c, serverToken = get_prop data ''session'',
              clientToken = get_prop data ''clientToken'',
              session_encKey = key_encKey k, session_macKey = key_macKey k,
              me = \<lparr> user_id = get_prop data ''wid'', user_name = get_prop data ''pushname'',
                     user_phone = get_prop data ''phone'' \<rparr> \<rparr>]"
    using assms(1) by (simp add: handleAuthSuccess_def state_of_def Let_def emit_def)
  moreover have "reconnectCount (state_of (handleAuthSuccess data c)) = 0"
    and "qrRetryCount (state_of (handleAuthSuccess data c)) = 0"
    and "qrRefreshTimer (state_of (handleAuthSuccess data c)) = None"
    and "readyTimers (state_of (handleAuthSuccess data c)) =
       readyTimers c @ [\<lparr> t_delay = 1000, t_armed = True \<rparr>]"
    using assms(1) by (simp_all add: handleAuthSuccess_def state_of_def Let_def emit_def)
  ultimately show ?thesis
    using ready_timeout_effect [OF assms(2,3)] by simp
qed

lemma connecting_client_keys:
  "keys connecting_client =
     Some \<lparr> key_private = replicate 32 (CHR 0x02), key_public = replicate 32 (CHR 0x02),
            key_encKey = None, key_macKey = None \<rparr>"
  by (simp add: connecting_client_def connect_def new_client_def env0_def generateKeys_def
      Let_def emit_def log_line_def)

lemma connecting_client_fields:
  "state connecting_client = CONNECTING \<and> readyTimers connecting_client = [] \<and>
   emitted connecting_client = [Ev_state_change DISCONNECTED CONNECTING]"
  by (simp add: connecting_client_def connect_def new_client_def env0_def generateKeys_def
      Let_def emit_def log_line_def)

lemma success_message_fields:
  "get_prop success_message ''session'' = Some (JString ''S1'')"
  "get_prop success_message ''clientToken'' = Some (JString ''C1'')"
  "get_prop success_message ''wid'' = Some (JString ''123@s'')"
  by (simp_all add: success_message_def)

lemma authenticated_client_timers:
  "readyTimers authenticated_client = [\<lparr> t_delay = 1000, t_armed = True \<rparr>]"
  "readyTimers (disconnect env0 authenticated_client) = [\<lparr> t_delay = 1000, t_armed = True \<rparr>]"
  by (simp_all add: authenticated_client_def handleAuthSuccess_def connecting_client_keys
      connecting_client_fields state_of_def Let_def emit_def log_line_def disconnect_unfold)

text \<open>
  The instance of Scenario C: the message with \<^verbatim>\<open>session = "S1"\<close>, \<^verbatim>\<open>clientToken = "C1"\<close>,
  \<^verbatim>\<open>wid = "123@s"\<close> on a client that has called \<^verbatim>\<open>connect()\<close>; the settle timer then fires
  either at once or after a \<^verbatim>\<open>disconnect()\<close>.
\<close>

lemma handleAuthSuccess_with_keys_scenario:
  "keys connecting_client \<noteq> None \<and>
   map_option serverToken (session authenticated_client) = Some (Some (JString ''S1'')) \<and>
   map_option clientToken (session authenticated_client) = Some (Some (JString ''C1'')) \<and>
   map_option (user_id \<circ> me) (session authenticated_client) = Some (Some (JString ''123@s'')) \<and>
   state authenticated_client = AUTHENTICATED \<and>
   reconnectCount authenticated_client = 0 \<and> qrRetryCount authenticated_client = 0 \<and>
   readyTimers authenticated_client = [\<lparr> t_delay = 1000, t_armed = True \<rparr>] \<and>
   state (ready_timeout 0 authenticated_client) = READY \<and>
   state (ready_timeout 0 (disconnect env0 authenticated_client)) = DISCONNECTED"
proof -
  note now = handleAuthSuccess_with_keys
    [OF connecting_client_keys, of 0 authenticated_client success_message]
  note later = handleAuthSuccess_with_keys
    [OF connecting_client_keys, of 0 "disconnect env0 authenticated_client" success_message]
  have armed: "0 < length (readyTimers authenticated_client)"
    "t_armed (readyTimers authenticated_client ! 0)"
    "0 < length (readyTimers (disconnect env0 authenticated_client))"
    "t_armed (readyTimers (disconnect env0 authenticated_client) ! 0)"
    by (simp_all add: authenticated_client_timers)
  have s1: "state authenticated_client = AUTHENTICATED"
    using now [OF armed(1,2)] by (simp add: authenticated_client_def)
  have s2: "state (disconnect env0 authenticated_client) = DISCONNECTED"
    using s1 by (simp add: disconnect_unfold emit_def log_line_def)
  have "session authenticated_client =
      Some \<lparr> session_clientId = clientId connecting_client,
             serverToken = Some (JString ''S1''), clientToken = Some (JString ''C1''),
             session_encKey = None, session_macKey = None,
             me = \<lparr> user_id = Some (JString ''123@s''),
                    user_name = get_prop success_message ''pushname'',
                    user_phone = get_prop success_message ''phone'' \<rparr> \<rparr>"
    using now [OF armed(1,2)]
    by (simp add: authenticated_client_def success_message_fields)
  moreover have "reconnectCount authenticated_client = 0"
    and "qrRetryCount authenticated_client = 0"
    using now [OF armed(1,2)] by (simp_all add: authenticated_client_def)
  moreover have "state (ready_timeout 0 authenticated_client) = READY"
    using now [OF armed(1,2)] s1 by simp
  moreover have "state (ready_timeout 0 (disconnect env0 authenticated_client)) = DISCONNECTED"
    using later [OF armed(3,4)] s2 by simp
  ultimately show ?thesis
    using s1 connecting_client_keys authenticated_client_timers(1) by simp
qed

text \<open>
  A restored session. On a new client \<^verbatim>\<open>restoreSession\<close> installs the session and connects
  without generating keys, so the key object is still \<^verbatim>\<open>null\<close> when the socket opens.
\<close>

lemma restoreSession_new:
  "websocket_ok ev \<Longrightarrow>
   restoreSession ev s (new_client os) =
     (new_client os)\<lparr> state := CONNECTING, session := Some s, ws := Some WS_CONNECTING,
                      emitted := [Ev_state_change DISCONNECTED CONNECTING],
                      logged := [''Connecting to WhatsApp Web servers...''] \<rparr>"
  by (simp add: restoreSession_def connect_def new_client_def Let_def emit_def log_line_def)

lemma restored_open:
  assumes "websocket_ok ev"
  shows "state (step ev' WsOpen (restoreSession ev s (new_client os))) = CONNECTED"
    "keys (step ev' WsOpen (restoreSession ev s (new_client os))) = None"
    "session (step ev' WsOpen (restoreSession ev s (new_client os))) = Some s"
    "user (step ev' WsOpen (restoreSession ev s (new_client os))) = None"
    "readyTimers (step ev' WsOpen (restoreSession ev s (new_client os))) = []"
  unfolding restoreSession_new [OF assms]
  by (simp_all add: onWebSocketOpen_def set_readyState_def sendInitialMessage_def sendJSON_def
      ws_open_def state_of_def Let_def emit_def log_line_def new_client_def)

lemma processMessage_success_without_keys:
  assumes "keys c = None" and "JSON_parse payload = Some data"
    and "is_string (get_prop data ''type'') ''success''"
    and "\<not> is_string (get_prop data ''status'') ''connected''"
    and "\<not> is_string (get_prop data ''status'') ''connecting''"
    and "\<not> is_string (get_prop data ''status'') ''timeout''"
  shows "processMessage ev (WA_MAGIC @ [CHR 0x06, b] @ payload) c =
           log_line ''Error parsing JSON message''
             (log_line ''Authentication successful'' (log_line ''Received JSON message'' c))"
proof -
  have nn: "\<not> nullish data"
    using assms(3) by (auto simp: nullish_def is_string_def)
  have k: "keys (log_line ''Authentication successful'' (log_line ''Received JSON message'' c)) = None"
    using assms(1) by (simp add: log_line_def)
  have "processJsonMessage ev data (log_line ''Received JSON message'' c) =
          Throw TypeError (log_line ''Authentication successful'' (log_line ''Received JSON message'' c))"
    using assms(3,4,5,6) nn handleAuthSuccess_without_keys [OF k, of data]
    by (simp add: processJsonMessage_def is_string_def)
  then show ?thesis
    using assms(2) by (simp add: processMessage_def WA_MAGIC_def WA_PREFIX_INFO_def Let_def)
qed

lemma success_text_parses: "JSON_parse success_text = Some success_message"
  unfolding success_text_def success_message_def by code_simp

text \<open>
  Claim C8 (the code departs from it on a restored session). Take a new
  client, restore a session \<open>s\<close> on it (the socket can be created), let the socket open,
  and deliver a frame whose payload parses to a success message \<open>data\<close>. When the frame
  arrives the state is \<open>CONNECTED\<close> and the key object is \<^verbatim>\<open>null\<close>, so \<^verbatim>\<open>handleAuthSuccess\<close>
  throws a \<^verbatim>\<open>TypeError\<close> at \<^verbatim>\<open>this.keys.encKey\<close>, which the \<^verbatim>\<open>catch\<close> of \<^verbatim>\<open>processMessage\<close>
  logs as a parse error. Afterwards the state is still \<open>CONNECTED\<close>, not \<open>AUTHENTICATED\<close>;
  the session is still the restored one, with none of the tokens of the message; no
  user is stored, no event is emitted, and no settle timer exists, so that no timer can
  move the client to \<open>READY\<close>.
\<close>

theorem restored_session_success_is_lost:
  assumes "websocket_ok ev" and "JSON_parse payload = Some data"
    and "is_string (get_prop data ''type'') ''success''"
    and "\<not> is_string (get_prop data ''status'') ''connected''"
    and "\<not> is_string (get_prop data ''status'') ''connecting''"
    and "\<not> is_string (get_prop data ''status'') ''timeout''"
  shows
    "(let c = step ev1 WsOpen (restoreSession ev s (new_client os));
          c' = step ev2 (WsMessage (WA_MAGIC @ [CHR 0x06, b] @ payload)) c
      in state c = CONNECTED \<and> keys c = None \<and>
         handleAuthSuccess data c = Throw TypeError c \<and>
         state c' = CONNECTED \<and> session c' = Some s \<and> user c' = None \<and>
         emitted c' = emitted c \<and> readyTimers c' = [] \<and>
         logged c' = logged c @ [''Received JSON message'', ''Authentication successful'',
                                 ''Error parsing JSON message''] \<and>
         step ev3 (ReadyTimer i) c' = c')"
proof -
  let ?c = "step ev1 WsOpen (restoreSession ev s (new_client os))"
  note o = restored_open [OF assms(1), of ev1 s os]
  have m: "step ev2 (WsMessage (WA_MAGIC @ [CHR 0x06, b] @ payload)) ?c =
      log_line ''Error parsing JSON message''
        (log_line ''Authentication successful'' (log_line ''Received JSON message'' ?c))"
    using processMessage_success_without_keys [OF o(2) assms(2,3,4,5,6)]
    by (simp add: onWebSocketMessage_def)
  have "handleAuthSuccess data ?c = Throw TypeError ?c"
    using o(2) by (rule handleAuthSuccess_without_keys)
  then show ?thesis
    unfolding Let_def m using o
    by (simp add: log_line_def ready_timeout_def)
qed

text \<open>
  The instance: the session file of an earlier run is restored on a new client with the
  default options, and the server answers with the success message of Scenario C
  (\<^verbatim>\<open>session = "S1"\<close>, \<^verbatim>\<open>clientToken = "C1"\<close>, \<^verbatim>\<open>wid = "123@s"\<close>) in a frame with the magic
  bytes and the descriptor bytes \<open>06 00\<close>.
\<close>

theorem restored_session_success_is_lost_witness:
  "websocket_ok env0 \<and> JSON_parse success_text = Some success_message \<and>
   is_string (get_prop success_message ''type'') ''success'' \<and>
   get_prop success_message ''status'' = None \<and>
   state (run [(env0, WsOpen), (env0, WsMessage (WA_MAGIC @ [CHR 0x06, CHR 0x00] @ success_text))]
            (restoreSession env0 stored_session (new_client default_options))) = CONNECTED \<and>
   session (run [(env0, WsOpen), (env0, WsMessage (WA_MAGIC @ [CHR 0x06, CHR 0x00] @ success_text))]
            (restoreSession env0 stored_session (new_client default_options))) = Some stored_session \<and>
   readyTimers (run [(env0, WsOpen), (env0, WsMessage (WA_MAGIC @ [CHR 0x06, CHR 0x00] @ success_text))]
            (restoreSession env0 stored_session (new_client default_options))) = []"
proof -
  have socket: "websocket_ok env0"
    by (simp add: env0_def)
  have fields: "is_string (get_prop success_message ''type'') ''success''"
    "\<not> is_string (get_prop success_message ''status'') ''connected''"
    "\<not> is_string (get_prop success_message ''status'') ''connecting''"
    "\<not> is_string (get_prop success_message ''status'') ''timeout''"
    "get_prop success_message ''status'' = None"
    by (simp_all add: success_message_def is_string_def)
  show ?thesis
    using restored_session_success_is_lost
      [OF socket success_text_parses fields(1,2,3,4),
       where ?ev1.0 = env0 and ?ev2.0 = env0 and b = "CHR 0x00" and s = stored_session
         and os = default_options]
      socket success_text_parses fields(1,5)
    by (auto simp: Let_def)
qed

section \<open>Pairing-code authentication\<close>

lemma requestPairingCode_keys:
  "pairing_keys (fst (requestPairingCode ev phone pc)) \<noteq> None"
  by (auto simp: requestPairingCode_def pairing_generateKeys_def Let_def sendJSON_def
      split: option.splits outcome.splits)

text \<open>Whatever the state of the socket, one call hands at most one frame to the socket.\<close>

lemma requestPairingCode_at_most_one:
  "sent (snd (requestPairingCode ev phone pc)) = sent (snd pc) \<or>
   (\<exists>frame. sent (snd (requestPairingCode ev phone pc)) = sent (snd pc) @ [frame])"
  by (auto simp: requestPairingCode_def pairing_generateKeys_def Let_def sendJSON_def emit_def
      log_line_def split: option.splits outcome.splits)

lemma requestPairingCode_open:
  assumes "ws_open (snd pc)"
  shows "sent (snd (requestPairingCode ev phone pc)) =
           sent (snd pc) @
             [WA_MAGIC @ WA_PREFIX_INFO @
                stringify (pairingMessage ev
                             (the (pairing_keys (fst (requestPairingCode ev phone pc))))
                             (formatPhone phone))]"
  using assms
  by (auto simp: requestPairingCode_def pairing_generateKeys_def Let_def sendJSON_def emit_def
      log_line_def ws_open_def split: option.splits outcome.splits)

lemma requestPairingCode_events:
  assumes "ws_open (snd pc)"
  shows "emitted (snd (requestPairingCode ev phone pc)) =
           emitted (snd pc) @ Ev_pairing_code_request (formatPhone phone) #
             (case send_error ev of
                None \<Rightarrow> []
              | Some e \<Rightarrow> [Ev_pairing_code_error (Exception e)])"
  using assms
  by (auto simp: requestPairingCode_def pairing_generateKeys_def Let_def sendJSON_def emit_def
      log_line_def ws_open_def split: option.splits outcome.splits)

lemma formatPhone_digits:
  assumes "list_all is_digit phone"
  shows "formatPhone phone = phone @ ''@s.whatsapp.net''"
proof -
  from assms have "CHR ''@'' \<notin> set phone"
    by (auto simp: list_all_iff is_digit_def)
  moreover from assms have "filter is_digit phone = phone"
    by (simp add: list_all_iff)
  ultimately show ?thesis by (simp add: formatPhone_def)
qed

lemma handlePairingCodeResponse_error:
  assumes "is_string (get_prop data ''type'') ''pair_error''"
    and "get_prop data ''reason'' = Some (JString ''missing'')"
  shows "handlePairingCodeResponse data c =
           Return (emit (Ev_pairing_code_error (Reason (JString ''missing'')))
                     (log_line ''Error generating pairing code'' c))"
  using assms by (auto simp: handlePairingCodeResponse_def nullish_def is_string_def js_or_def)

text \<open>
  Claim C9. With the socket open, one call of \<^verbatim>\<open>requestPairingCode\<close> hands exactly one frame
  to the socket: the structured frame of the request object whose \<^verbatim>\<open>phone\<close> is the formatted
  phone number (the digits followed by \<^verbatim>\<open>@s.whatsapp.net\<close>) and whose \<^verbatim>\<open>ref\<close> is the upper-case
  hex form of the eight random bytes drawn in that call; it emits one
  \<^verbatim>\<open>pairing_code_request\<close>. A reply of type \<^verbatim>\<open>pair_error\<close> with reason \<^verbatim>\<open>missing\<close> makes
  \<^verbatim>\<open>handlePairingCodeResponse\<close> emit exactly one \<^verbatim>\<open>pairing_code_error\<close> with that reason and
  send nothing. No second request is sent in either case.
\<close>

theorem requestPairingCode_single_request:
  assumes "ws_open (snd pc)" and "list_all is_digit phone"
    and "is_string (get_prop data ''type'') ''pair_error''"
    and "get_prop data ''reason'' = Some (JString ''missing'')"
  shows
    "pairing_keys (fst (requestPairingCode ev phone pc)) \<noteq> None \<and>
     sent (snd (requestPairingCode ev phone pc)) =
       sent (snd pc) @
         [WA_MAGIC @ WA_PREFIX_INFO @
            stringify (pairingMessage ev
                         (the (pairing_keys (fst (requestPairingCode ev phone pc))))
                         (formatPhone phone))] \<and>
     pairingMessage ev k (formatPhone phone) =
       JObject [(''type'', JString ''request_pair''),
                (''ref'', JString (map to_upper (hex (randomBytes8 ev)))),
                (''publicKey'', JString (base64 ev (key_public k))),
                (''phone'', JString (phone @ ''@s.whatsapp.net''))] \<and>
     emitted (snd (requestPairingCode ev phone pc)) =
       emitted (snd pc) @ Ev_pairing_code_request (phone @ ''@s.whatsapp.net'') #
         (case send_error ev of
            None \<Rightarrow> []
          | Some e \<Rightarrow> [Ev_pairing_code_error (Exception e)]) \<and>
     handlePairingCodeResponse data c =
       Return (emit (Ev_pairing_code_error (Reason (JString ''missing'')))
                 (log_line ''Error generating pairing code'' c)) \<and>
     emitted (state_of (handlePairingCodeResponse data c)) =
       emitted c @ [Ev_pairing_code_error (Reason (JString ''missing''))] \<and>
     sent (state_of (handlePairingCodeResponse data c)) = sent c"
proof -
  have "formatPhone phone = phone @ ''@s.whatsapp.net''"
    using assms(2) by (rule formatPhone_digits)
  moreover have "handlePairingCodeResponse data c =
       Return (emit (Ev_pairing_code_error (Reason (JString ''missing'')))
                 (log_line ''Error generating pairing code'' c))"
    using assms(3,4) by (rule handlePairingCodeResponse_error)
  ultimately show ?thesis
    using requestPairingCode_keys [of ev phone pc]
      requestPairingCode_open [OF assms(1), of ev phone]
      requestPairingCode_events [OF assms(1), of ev phone]
    by (simp add: pairingMessage_def state_of_def emit_def log_line_def)
qed

theorem requestPairingCode_single_request_witness:
  "ws_open ready_client \<and> list_all is_digit ''40712345678'' \<and>
   is_string (get_prop pair_error_missing ''type'') ''pair_error'' \<and>
   get_prop pair_error_missing ''reason'' = Some (JString ''missing'') \<and>
   length (sent (snd (requestPairingCode env0 ''40712345678'' (fresh_pairing, ready_client)))) = 1 \<and>
   emitted (snd (requestPairingCode env0 ''40712345678'' (fresh_pairing, ready_client))) =
     [Ev_pairing_code_request ''40712345678@s.whatsapp.net''] \<and>
   emitted (state_of (handlePairingCodeResponse pair_error_missing ready_client)) =
     [Ev_pairing_code_error (Reason (JString ''missing''))] \<and>
   sent (state_of (handlePairingCodeResponse pair_error_missing ready_client)) = []"
proof -
  have a1: "ws_open (snd (fresh_pairing, ready_client))"
    by (simp add: ready_client_def ws_open_def)
  have a2: "list_all is_digit ''40712345678''"
    by (simp add: is_digit_def)
  have a3: "is_string (get_prop pair_error_missing ''type'') ''pair_error''"
    by (simp add: pair_error_missing_def is_string_def)
  have a4: "get_prop pair_error_missing ''reason'' = Some (JString ''missing'')"
    by (simp add: pair_error_missing_def)
  have e: "send_error env0 = None"
    by (simp add: env0_def)
  have r: "sent ready_client = []" "emitted ready_client = []"
    by (simp_all add: ready_client_def new_client_def)
  note inst = requestPairingCode_single_request
    [OF a1 a2 a3 a4, of env0 "\<lparr> key_private = [], key_public = [], key_encKey = None,
       key_macKey = None \<rparr>" ready_client]
  from inst have "length (sent (snd (requestPairingCode env0 ''40712345678''
      (fresh_pairing, ready_client)))) = 1"
    by (simp add: r)
  moreover from inst have "emitted (snd (requestPairingCode env0 ''40712345678''
      (fresh_pairing, ready_client))) = [Ev_pairing_code_request ''40712345678@s.whatsapp.net'']"
    by (simp add: r e)
  moreover from inst have
    "emitted (state_of (handlePairingCodeResponse pair_error_missing ready_client)) =
       [Ev_pairing_code_error (Reason (JString ''missing''))]"
    by (simp add: state_of_def emit_def log_line_def r)
  moreover from inst have
    "sent (state_of (handlePairingCodeResponse pair_error_missing ready_client)) = []"
    by (simp add: state_of_def emit_def log_line_def r)
  ultimately show ?thesis
    using a1 a2 a3 a4 by simp
qed

section \<open>Teardown\<close>

lemma pending_client_registry:
  "state pending_client = READY \<and> map snd (callbacks pending_client) = [0] \<and>
   map rq_promise (requests pending_client) = [Pending] \<and>
   map (t_armed \<circ> rq_timer) (requests pending_client) = [True] \<and>
   reconnectTimer pending_client = None \<and> qrRefreshTimer pending_client = None"
  by (simp add: pending_client_def sendBinary_def ready_client_def new_client_def ws_open_def
      generateMessageTag_def state_of_def Let_def)

lemma qr_timeout_max:
  assumes "qrRefreshTimer c = Some t" and "t_armed t"
    and "qrMaxRetries (opts c) \<le> qrRetryCount c + 1"
  shows "qr_timeout ev c =
           disconnect ev
             (emit Ev_qr_max_retries
                (log_line ''Maximum QR code retries reached''
                   (c\<lparr>qrRefreshTimer := Some (disarm t), qrRetryCount := qrRetryCount c + 1\<rparr>)))"
  using assms by (simp add: qr_timeout_def Let_def)

text \<open>
  Claim C6 fails on the code. A client that is \<open>READY\<close> with one tagged request pending
  calls \<^verbatim>\<open>disconnect()\<close>: afterwards the callback of that request is still in the registry,
  its promise is still pending and its timeout timer is still armed. Likewise the settle
  timer of an authenticated client is still armed after \<^verbatim>\<open>disconnect()\<close>. The code has no
  operation that rejects the pending requests.
\<close>

theorem teardown_counterexample:
  "state pending_client \<noteq> DISCONNECTED \<and>
   map snd (callbacks (disconnect env0 pending_client)) = [0] \<and>
   map rq_promise (requests (disconnect env0 pending_client)) = [Pending] \<and>
   map (t_armed \<circ> rq_timer) (requests (disconnect env0 pending_client)) = [True] \<and>
   map t_armed (readyTimers (disconnect env0 authenticated_client)) = [True]"
  using pending_client_registry authenticated_client_timers(2)
  by (simp add: disconnect_unfold emit_def log_line_def)

text \<open>
  Claim C6 as amended. \<^verbatim>\<open>disconnect()\<close> from a state other than \<open>DISCONNECTED\<close>, also when
  the QR expiry timer calls it at the retry limit, ends in \<open>DISCONNECTED\<close> with the
  reconnect timer and the QR expiry timer cancelled and the socket dropped; the
  tag-callback registry, the pending requests with their timeout timers, and the settle
  timers are left as they were. When the reconnect attempts are exhausted,
  \<^verbatim>\<open>_scheduleReconnect\<close> emits \<^verbatim>\<open>reconnect_failed\<close> and changes nothing else.
\<close>

theorem teardown_cancels_client_timers_only:
  assumes "state c \<noteq> DISCONNECTED"
  shows "state (disconnect ev c) = DISCONNECTED \<and>
         reconnectTimer (disconnect ev c) = None \<and>
         qrRefreshTimer (disconnect ev c) = None \<and>
         ws (disconnect ev c) = None \<and>
         callbacks (disconnect ev c) = callbacks c \<and>
         requests (disconnect ev c) = requests c \<and>
         readyTimers (disconnect ev c) = readyTimers c \<and>
         (qrRefreshTimer c = Some t \<and> t_armed t \<and> qrMaxRetries (opts c) \<le> qrRetryCount c + 1 \<longrightarrow>
            state (qr_timeout ev c) = DISCONNECTED \<and>
            reconnectTimer (qr_timeout ev c) = None \<and>
            qrRefreshTimer (qr_timeout ev c) = None \<and>
            ws (qr_timeout ev c) = None \<and>
            callbacks (qr_timeout ev c) = callbacks c \<and>
            requests (qr_timeout ev c) = requests c \<and>
            readyTimers (qr_timeout ev c) = readyTimers c) \<and>
         (maxReconnects (opts d) \<le> reconnectCount d \<longrightarrow>
            scheduleReconnect d =
              emit Ev_reconnect_failed (log_line ''Maximum reconnect attempts reached'' d))"
  using assms
  by (auto simp: qr_timeout_max disconnect_unfold scheduleReconnect_def emit_def log_line_def)

theorem teardown_cancels_client_timers_only_witness:
  "state qr_client \<noteq> DISCONNECTED \<and>
   qrRefreshTimer qr_client = Some \<lparr> t_delay = 60000, t_armed = True \<rparr> \<and>
   qrMaxRetries (opts qr_client) \<le> qrRetryCount qr_client + 1 \<and>
   state (disconnect env0 qr_client) = DISCONNECTED \<and>
   qrRefreshTimer (disconnect env0 qr_client) = None \<and>
   ws (disconnect env0 qr_client) = None \<and>
   map rq_promise (requests (disconnect env0 qr_client)) = [Pending] \<and>
   state (qr_timeout env0 qr_client) = DISCONNECTED \<and>
   qrRefreshTimer (qr_timeout env0 qr_client) = None \<and>
   map rq_promise (requests (qr_timeout env0 qr_client)) = [Pending] \<and>
   map snd (callbacks (qr_timeout env0 qr_client)) = [0]"
proof -
  have q: "state qr_client = READY"
    "qrRefreshTimer qr_client = Some \<lparr> t_delay = 60000, t_armed = True \<rparr>"
    "qrRetryCount qr_client = 2" "requests qr_client = requests pending_client"
    "callbacks qr_client = callbacks pending_client"
    using pending_client_registry by (simp_all add: qr_client_def)
  have o: "qrMaxRetries (opts qr_client) = 3"
    by (simp add: qr_client_def pending_client_def sendBinary_def ready_client_def
        new_client_def default_options_def ws_open_def generateMessageTag_def state_of_def
        Let_def)
  have n: "state qr_client \<noteq> DISCONNECTED"
    by (simp add: q)
  show ?thesis
    using teardown_cancels_client_timers_only
        [OF n, of env0 "\<lparr> t_delay = 60000, t_armed = True \<rparr>" qr_client]
      pending_client_registry
    by (simp add: q o)
qed

section \<open>Reconnection policy\<close>

lemma reconnect_inv_scheduleReconnect: "reconnect_inv os c \<Longrightarrow> reconnect_inv os (scheduleReconnect c)"
  by (auto simp: reconnect_inv_def scheduleReconnect_def Let_def emit_def log_line_def)

lemma reconnect_inv_connect: "reconnect_inv os c \<Longrightarrow> reconnect_inv os (connect ev c)"
  by (auto simp: reconnect_inv_def connect_def scheduleReconnect_def generateKeys_def Let_def emit_def log_line_def)

lemma reconnect_inv_disconnect: "reconnect_inv os c \<Longrightarrow> reconnect_inv os (disconnect ev c)"
  by (auto simp: reconnect_inv_def disconnect_unfold emit_def log_line_def)

lemma reconnect_inv_handleQRCode: "reconnect_inv os c \<Longrightarrow> reconnect_inv os (handleQRCode ev r c)"
  by (auto simp: reconnect_inv_def handleQRCode_def generateKeys_def Let_def emit_def log_line_def)

lemma reconnect_inv_handleAuthSuccess: "reconnect_inv os c \<Longrightarrow> reconnect_inv os (state_of (handleAuthSuccess d c))"
  by (auto simp: reconnect_inv_def handleAuthSuccess_def state_of_def Let_def emit_def log_line_def split: option.splits)

lemma reconnect_inv_log: "reconnect_inv os c \<Longrightarrow> reconnect_inv os (log_line m c)"
  by (auto simp: reconnect_inv_def log_line_def)

lemma reconnect_inv_emit: "reconnect_inv os c \<Longrightarrow> reconnect_inv os (emit m c)"
  by (auto simp: reconnect_inv_def emit_def)

lemma reconnect_inv_processJsonMessage: "reconnect_inv os c \<Longrightarrow> reconnect_inv os (state_of (processJsonMessage ev m c))"
  using reconnect_inv_handleAuthSuccess [of os "log_line ''Authentication successful'' c" m]
    reconnect_inv_handleQRCode [of os "log_line ''Received QR code data'' c" ev]
  by (auto simp: processJsonMessage_def reconnect_inv_log reconnect_inv_emit state_of_def)
     (auto simp: reconnect_inv_def emit_def log_line_def)

lemma reconnect_inv_processBinaryMessage: "reconnect_inv os c \<Longrightarrow> reconnect_inv os (state_of (processBinaryMessage m c))"
  by (auto simp: reconnect_inv_def processBinaryMessage_def state_of_def reply_callback_def dispatch_content_def
     processNotification_def Let_def emit_def log_line_def split: decoded.splits option.splits json.splits)

lemma processMessage_preserves:
  assumes log: "\<And>m c. P c \<Longrightarrow> P (log_line m c)"
    and json: "\<And>m c. P c \<Longrightarrow> P (state_of (processJsonMessage ev m c))"
    and "P c"
  shows "P (processMessage ev b c)"
proof -
  have logged: "P (log_line ''Received JSON message'' c)"
    using \<open>P c\<close> by (rule log)
  have "P (case processJsonMessage ev m (log_line ''Received JSON message'' c) of
             Return c' \<Rightarrow> c' | Throw e c' \<Rightarrow> log_line ''Error parsing JSON message'' c')" for m
    using json [OF logged, of m]
    by (cases "processJsonMessage ev m (log_line ''Received JSON message'' c)")
       (simp_all add: state_of_def log)
  then show ?thesis
    unfolding processMessage_binary_branch_unreachable
    using \<open>P c\<close> by (simp add: log split: option.splits)
qed

lemma reconnect_inv_processMessage: "reconnect_inv os c \<Longrightarrow> reconnect_inv os (processMessage ev b c)"
  by (rule processMessage_preserves [where P = "reconnect_inv os"])
     (simp_all add: reconnect_inv_log reconnect_inv_processJsonMessage)

lemma reconnect_inv_step: "reconnect_inv os c \<Longrightarrow> reconnect_inv os (step ev i c)"
proof (cases i)
  case Connect then show "reconnect_inv os c \<Longrightarrow> ?thesis" by (simp add: reconnect_inv_connect)
next
  case Disconnect then show "reconnect_inv os c \<Longrightarrow> ?thesis" by (simp add: reconnect_inv_disconnect)
next
  case WsOpen then show "reconnect_inv os c \<Longrightarrow> ?thesis"
    by (auto simp: reconnect_inv_def onWebSocketOpen_def set_readyState_def sendInitialMessage_def sendJSON_def state_of_def Let_def emit_def log_line_def)
next
  case (WsMessage b) then show "reconnect_inv os c \<Longrightarrow> ?thesis" by (simp add: onWebSocketMessage_def reconnect_inv_processMessage)
next
  case (WsClose code reason) 
  show "reconnect_inv os c \<Longrightarrow> ?thesis" unfolding WsClose
    by (auto simp: onWebSocketClose_def set_readyState_def Let_def intro!: reconnect_inv_scheduleReconnect)
       (auto simp: reconnect_inv_def emit_def log_line_def)
next
  case WsError then show "reconnect_inv os c \<Longrightarrow> ?thesis" by (auto simp: reconnect_inv_def onWebSocketError_def emit_def log_line_def)
next
  case ReconnectTimer
  show "reconnect_inv os c \<Longrightarrow> ?thesis" unfolding ReconnectTimer
    by (auto simp: reconnect_timeout_def split: option.splits intro!: reconnect_inv_connect)
       (auto simp: reconnect_inv_def log_line_def)
next
  case QrTimer
  show "reconnect_inv os c \<Longrightarrow> ?thesis" unfolding QrTimer
    by (auto simp: qr_timeout_def Let_def split: option.splits intro!: reconnect_inv_disconnect)
       (auto simp: reconnect_inv_def emit_def log_line_def)
next
  case (ReadyTimer n) then show "reconnect_inv os c \<Longrightarrow> ?thesis"
    by (auto simp: reconnect_inv_def ready_timeout_def Let_def emit_def)
next
  case (RequestTimer n) then show "reconnect_inv os c \<Longrightarrow> ?thesis"
    by (auto simp: reconnect_inv_def request_timeout_def Let_def)
next
  case (SendCallback n e) then show "reconnect_inv os c \<Longrightarrow> ?thesis"
    by (auto simp: reconnect_inv_def send_callback_def Let_def split: option.splits)
next
  case GenerateTag then show "reconnect_inv os c \<Longrightarrow> ?thesis"
    by (auto simp: reconnect_inv_def generateMessageTag_def)
next
  case (SendBinary n t) then show "reconnect_inv os c \<Longrightarrow> ?thesis"
    by (auto simp: reconnect_inv_def sendBinary_def generateMessageTag_def state_of_def Let_def split: option.splits)
next
  case (SendJSON d) then show "reconnect_inv os c \<Longrightarrow> ?thesis"
    by (auto simp: reconnect_inv_def sendJSON_def state_of_def)
next
  case (Reply m) then show "reconnect_inv os c \<Longrightarrow> ?thesis" by (simp add: reconnect_inv_processBinaryMessage)
qed

lemma reconnect_inv_run: "reconnect_inv os c \<Longrightarrow> reconnect_inv os (run ins c)"
  by (induction ins arbitrary: c) (auto simp: reconnect_inv_step)

lemma reconnect_inv_new: "reconnect_inv os (new_client os)"
  by (simp add: reconnect_inv_def new_client_def)

lemma scheduleReconnect_emitted:
  "emitted (scheduleReconnect c) =
     emitted c @ (if maxReconnects (opts c) \<le> reconnectCount c then [Ev_reconnect_failed] else [])"
  by (simp add: scheduleReconnect_def Let_def emit_def log_line_def)

lemma scheduleReconnect_next:
  "reconnectCount c < maxReconnects (opts c) \<Longrightarrow>
     reconnectCount (scheduleReconnect c) = reconnectCount c + 1 \<and>
     reconnectTimer (scheduleReconnect c) =
       Some \<lparr> t_delay = real (reconnectDelay (opts c)) *
                          (3 / 2) ^ (reconnectCount (scheduleReconnect c) - 1),
              t_armed = True \<rparr>"
  by (simp add: scheduleReconnect_def Let_def emit_def log_line_def)

lemma scheduleReconnect_exhausted:
  "maxReconnects (opts c) \<le> reconnectCount c \<Longrightarrow>
     reconnectCount (scheduleReconnect c) = reconnectCount c \<and>
     reconnectTimer (scheduleReconnect c) = reconnectTimer c"
  by (simp add: scheduleReconnect_def Let_def emit_def log_line_def)

lemma onWebSocketClose_quiet:
  "code = 1000 \<or> \<not> autoReconnect (opts c) \<Longrightarrow>
     reconnectTimer (onWebSocketClose code reason c) = reconnectTimer c \<and>
     reconnectCount (onWebSocketClose code reason c) = reconnectCount c \<and>
     emitted (onWebSocketClose code reason c) =
       emitted c @ [Ev_state_change (state c) DISCONNECTED, Ev_disconnected (Some (code, reason))]"
  by (auto simp: onWebSocketClose_def Let_def emit_def log_line_def)

lemma onWebSocketClose_reconnects:
  "code \<noteq> 1000 \<Longrightarrow> autoReconnect (opts c) \<Longrightarrow>
     onWebSocketClose code reason c =
       scheduleReconnect
         (emit (Ev_disconnected (Some (code, reason)))
            (emit (Ev_state_change (state c) DISCONNECTED)
               ((log_line ''WebSocket closed'' c)\<lparr>state := DISCONNECTED\<rparr>)))"
  by (auto simp: onWebSocketClose_def Let_def emit_def log_line_def)

lemma connect_without_autoReconnect:
  "\<not> autoReconnect (opts c) \<Longrightarrow>
     reconnectTimer (connect ev c) = reconnectTimer c \<and>
     reconnectCount (connect ev c) = reconnectCount c"
  by (auto simp: connect_def generateKeys_def Let_def emit_def log_line_def)

text \<open>
  The schedule. In every run of a client created with options \<open>os\<close> the attempt counter
  never exceeds \<open>maxReconnects\<close>. A call of \<^verbatim>\<open>_scheduleReconnect\<close> emits \<^verbatim>\<open>reconnect_failed\<close>
  exactly when the counter has reached the maximum, and then schedules nothing; otherwise
  it increments the counter to \<open>n\<close> and arms the reconnect timer with the delay
  \<open>reconnectDelay * (3 / 2) ^ (n - 1)\<close>. A close with code 1000, or any close while
  \<^verbatim>\<open>autoReconnect\<close> is off, schedules nothing: timer and counter are unchanged and only the
  state change and \<^verbatim>\<open>disconnected\<close> are emitted; a failed \<^verbatim>\<open>connect()\<close> with \<^verbatim>\<open>autoReconnect\<close>
  off schedules nothing either. The delay is the exact product, see \<open>scheduleReconnect\<close>.
\<close>

lemma reconnect_schedule:
  "reconnectCount (run ins (new_client os)) \<le> maxReconnects os \<and>
   emitted (scheduleReconnect c) =
     emitted c @ (if maxReconnects (opts c) \<le> reconnectCount c then [Ev_reconnect_failed] else []) \<and>
   (reconnectCount c < maxReconnects (opts c) \<longrightarrow>
      reconnectCount (scheduleReconnect c) = reconnectCount c + 1 \<and>
      reconnectTimer (scheduleReconnect c) =
        Some \<lparr> t_delay = real (reconnectDelay (opts c)) *
                           (3 / 2) ^ (reconnectCount (scheduleReconnect c) - 1),
               t_armed = True \<rparr>) \<and>
   (maxReconnects (opts c) \<le> reconnectCount c \<longrightarrow>
      reconnectCount (scheduleReconnect c) = reconnectCount c \<and>
      reconnectTimer (scheduleReconnect c) = reconnectTimer c) \<and>
   (code = 1000 \<or> \<not> autoReconnect (opts c) \<longrightarrow>
      reconnectTimer (onWebSocketClose code reason c) = reconnectTimer c \<and>
      reconnectCount (onWebSocketClose code reason c) = reconnectCount c \<and>
      emitted (onWebSocketClose code reason c) =
        emitted c @ [Ev_state_change (state c) DISCONNECTED,
                     Ev_disconnected (Some (code, reason))]) \<and>
   (\<not> autoReconnect (opts c) \<longrightarrow>
      reconnectTimer (connect ev c) = reconnectTimer c \<and>
      reconnectCount (connect ev c) = reconnectCount c)"
proof -
  have "reconnect_inv os (run ins (new_client os))"
    using reconnect_inv_new by (rule reconnect_inv_run)
  then have "reconnectCount (run ins (new_client os)) \<le> maxReconnects os"
    by (simp add: reconnect_inv_def)
  then show ?thesis
    using scheduleReconnect_emitted [of c] scheduleReconnect_next [of c]
      scheduleReconnect_exhausted [of c] onWebSocketClose_quiet [of code c reason]
      connect_without_autoReconnect [of c ev]
    by blast
qed

lemma reconnect_schedule_scenario:
  "reconnectCount (run [(env0, WsClose 1006 []), (env0, ReconnectTimer), (env0, WsClose 1006 [])]
     (new_client default_options)) \<le> 5 \<and>
   reconnectCount third_attempt < maxReconnects (opts third_attempt) \<and>
   reconnectCount (scheduleReconnect third_attempt) = 3 \<and>
   reconnectTimer (scheduleReconnect third_attempt) = Some \<lparr> t_delay = 6750, t_armed = True \<rparr> \<and>
   emitted (scheduleReconnect third_attempt) = [] \<and>
   maxReconnects (opts exhausted) \<le> reconnectCount exhausted \<and>
   emitted (scheduleReconnect exhausted) = [Ev_reconnect_failed] \<and>
   reconnectCount (scheduleReconnect exhausted) = 5 \<and>
   reconnectTimer (scheduleReconnect exhausted) = None \<and>
   reconnectTimer (onWebSocketClose 1000 [] third_attempt) = None \<and>
   reconnectCount (onWebSocketClose 1000 [] third_attempt) = 2"
proof -
  have t: "opts third_attempt = default_options" "reconnectCount third_attempt = 2"
    "reconnectTimer third_attempt = None" "emitted third_attempt = []"
    by (simp_all add: third_attempt_def new_client_def)
  have x: "opts exhausted = default_options" "reconnectCount exhausted = 5"
    "reconnectTimer exhausted = None" "emitted exhausted = []"
    by (simp_all add: exhausted_def new_client_def)
  have d: "maxReconnects default_options = 5" "reconnectDelay default_options = 3000"
    by (simp_all add: default_options_def)
  have p: "(3000::real) * (3 / 2) ^ 2 = 6750"
    by (simp add: power2_eq_square)
  show ?thesis
    using reconnect_schedule [of "[(env0, WsClose 1006 []), (env0, ReconnectTimer), (env0, WsClose 1006 [])]"
                default_options third_attempt 1000 "[]" env0]
      reconnect_schedule [of "[]" default_options exhausted 1000 "[]" env0]
    by (simp add: t x d p)
qed

text \<open>
  Claim C7 (the code departs from it). An explicit \<^verbatim>\<open>disconnect()\<close> does not stop the
  reconnection. Let \<^verbatim>\<open>autoReconnect\<close> be on, the attempt counter below the
  maximum, and the close code other than 1000.

  First, the socket closes and the caller then calls \<^verbatim>\<open>disconnect()\<close>. The close handler
  has set the state to \<open>DISCONNECTED\<close> and armed the reconnect timer; \<^verbatim>\<open>disconnect()\<close>
  returns at its first test, before the statement that clears the timer, and changes
  nothing. When the timer fires, \<^verbatim>\<open>connect()\<close> runs and the client is \<open>CONNECTING\<close> again
  on a new socket.

  Second, the caller calls \<^verbatim>\<open>disconnect()\<close> on a connected client and the close event of
  the released socket, whose listeners \<^verbatim>\<open>disconnect()\<close> leaves attached, arrives afterwards.
  \<^verbatim>\<open>disconnect()\<close> calls \<^verbatim>\<open>ws.close()\<close> without a code, so the code of that event is the one
  the socket library reports; for every code other than 1000 the close handler counts
  an attempt and arms the reconnect timer, and the client is \<open>CONNECTING\<close> again when it
  fires.
\<close>

theorem disconnect_leaves_reconnect_pending:
  assumes "autoReconnect (opts c)" and "reconnectCount c < maxReconnects (opts c)"
    and "code \<noteq> 1000" and "websocket_ok ev3"
  shows
    "(let c1 = step ev1 (WsClose code reason) c;
          c2 = step ev2 Disconnect c1;
          c3 = step ev3 ReconnectTimer c2
      in state c1 = DISCONNECTED \<and> c2 = c1 \<and>
         (\<exists>t. reconnectTimer c2 = Some t \<and> t_armed t) \<and>
         state c3 = CONNECTING \<and> ws c3 = Some WS_CONNECTING) \<and>
     (state c \<noteq> DISCONNECTED \<longrightarrow>
        (let d1 = step ev1 Disconnect c;
             d2 = step ev2 (WsClose code reason) d1;
             d3 = step ev3 ReconnectTimer d2
         in state d1 = DISCONNECTED \<and> reconnectTimer d1 = None \<and> ws d1 = None \<and>
            reconnectCount d2 = reconnectCount c + 1 \<and>
            (\<exists>t. reconnectTimer d2 = Some t \<and> t_armed t) \<and>
            state d3 = CONNECTING \<and> ws d3 = Some WS_CONNECTING))"
  using assms
  by (simp add: Let_def onWebSocketClose_def set_readyState_def scheduleReconnect_def
      disconnect_unfold reconnect_timeout_def connect_def generateKeys_def disarm_def
      emit_def log_line_def)

text \<open>
  The instance: a client in state \<open>READY\<close> with the default options, an abnormal close
  (code 1006) followed by \<^verbatim>\<open>disconnect()\<close>, and \<^verbatim>\<open>disconnect()\<close> followed by a close event
  without status code (code 1005).
\<close>

theorem disconnect_leaves_reconnect_pending_witness:
  "autoReconnect (opts ready_client) \<and>
   reconnectCount ready_client < maxReconnects (opts ready_client) \<and>
   websocket_ok env0 \<and>
   state (run [(env0, WsClose 1006 []), (env0, Disconnect), (env0, ReconnectTimer)] ready_client)
     = CONNECTING \<and>
   state (run [(env0, Disconnect), (env0, WsClose 1005 []), (env0, ReconnectTimer)] ready_client)
     = CONNECTING"
proof -
  have o: "autoReconnect (opts ready_client)"
    "reconnectCount ready_client < maxReconnects (opts ready_client)"
    by (simp_all add: ready_client_def new_client_def default_options_def)
  have socket: "websocket_ok env0"
    by (simp add: env0_def)
  have s: "state ready_client \<noteq> DISCONNECTED"
    by (simp add: ready_client_def)
  show ?thesis
    using disconnect_leaves_reconnect_pending
        [OF o _ socket, where code = 1006 and ?ev1.0 = env0 and ?ev2.0 = env0 and reason = "[]"]
      disconnect_leaves_reconnect_pending
        [OF o _ socket, where code = 1005 and ?ev1.0 = env0 and ?ev2.0 = env0 and reason = "[]"]
      o socket s
    by (auto simp: Let_def)
qed

section \<open>The tag-callback registry\<close>

lemma digit_val_digit_char: "d < 10 \<Longrightarrow> digit_val (digit_char d) = d"
proof -
  assume "d < 10"
  then have "d \<in> {0, 1, 2, 3, 4, 5, 6, 7, 8, 9}" by auto
  then show ?thesis
    by (auto simp: digit_val_def digit_char_def)
qed

lemma digit_char_not_minus: "d < 10 \<Longrightarrow> digit_char d \<noteq> CHR ''-''"
proof -
  assume "d < 10"
  then have "d \<in> {0, 1, 2, 3, 4, 5, 6, 7, 8, 9}" by auto
  then show ?thesis
    by (auto simp: digit_char_def)
qed

lemma digits_val_snoc: "digits_val (ds @ [c]) = 10 * digits_val ds + digit_val c"
  by (simp add: digits_val_def)

lemma digits_val_show_nat: "digits_val (show_nat n) = n"
proof (induction n rule: show_nat.induct)
  case (1 n)
  show ?case
  proof (cases "n < 10")
    case True
    then show ?thesis
      by (subst show_nat.simps) (simp add: digits_val_def digit_val_digit_char)
  next
    case False
    with "1" have "digits_val (show_nat (n div 10)) = n div 10" by simp
    with False show ?thesis
      by (subst show_nat.simps) (simp add: digits_val_snoc digit_val_digit_char)
  qed
qed

lemma show_nat_no_minus: "CHR ''-'' \<notin> set (show_nat n)"
proof (induction n rule: show_nat.induct)
  case (1 n)
  have last_digit: "digit_char (n mod 10) \<noteq> CHR ''-''"
    by (rule digit_char_not_minus) simp
  show ?case
  proof (cases "n < 10")
    case True
    then have "show_nat n = [digit_char n]"
      by (subst show_nat.simps) simp
    with True show ?thesis
      using digit_char_not_minus [of n] by auto
  next
    case False
    then have "show_nat n = show_nat (n div 10) @ [digit_char (n mod 10)]"
      by (subst show_nat.simps) simp
    with "1.IH" False last_digit show ?thesis
      by auto
  qed
qed

lemma tag_counter_tag: "tag_counter (prefix @ ''.--'' @ show_nat k) = k"
proof -
  have "takeWhile (\<lambda>c. c \<noteq> CHR ''-'') (rev (show_nat k) @ ''--.'' @ rev prefix) = rev (show_nat k)"
    using show_nat_no_minus [of k]
    by (subst takeWhile_append2) auto
  then show ?thesis
    by (simp add: tag_counter_def digits_val_show_nat)
qed

lemma tag_counter_generateMessageTag:
  "tag_counter (fst (generateMessageTag ev c)) = messageTagCounter c"
  using tag_counter_tag [of "show_int (now ev)" "messageTagCounter c"]
  by (simp add: generateMessageTag_def)

lemma generateMessageTag_distinct:
  "messageTagCounter c1 \<noteq> messageTagCounter c2 \<Longrightarrow>
   fst (generateMessageTag ev1 c1) \<noteq> fst (generateMessageTag ev2 c2)"
  using tag_counter_generateMessageTag [of ev1 c1] tag_counter_generateMessageTag [of ev2 c2]
  by auto

lemma registry_inv_cong: "registry c' = registry c \<Longrightarrow> registry_inv E c' = registry_inv E c"
  by (simp add: registry_def registry_inv_def)

lemma registry_state_update [simp]: "registry (c\<lparr>state := s\<rparr>) = registry c"
  by (simp add: registry_def)

lemma registry_emit [simp]: "registry (emit e c) = registry c"
  by (simp add: registry_def emit_def)

lemma registry_log_line [simp]: "registry (log_line m c) = registry c"
  by (simp add: registry_def log_line_def)

lemma registry_generateKeys [simp]: "registry (generateKeys ev c) = registry c"
  by (simp add: registry_def generateKeys_def log_line_def)

lemma registry_scheduleReconnect [simp]: "registry (scheduleReconnect c) = registry c"
  by (simp add: registry_def scheduleReconnect_def Let_def emit_def log_line_def)

lemma registry_connect [simp]: "registry (connect ev c) = registry c"
  by (simp add: registry_def connect_def scheduleReconnect_def generateKeys_def Let_def emit_def log_line_def)

lemma registry_disconnect [simp]: "registry (disconnect ev c) = registry c"
  by (simp add: registry_def disconnect_unfold emit_def log_line_def)

lemma registry_sendJSON [simp]: "registry (state_of (sendJSON d c)) = registry c"
  by (simp add: registry_def sendJSON_def state_of_def)

lemma registry_set_readyState [simp]: "registry (set_readyState r c) = registry c"
  by (simp add: registry_def set_readyState_def)

lemma registry_onWebSocketOpen [simp]: "registry (onWebSocketOpen c) = registry c"
  by (simp add: registry_def onWebSocketOpen_def sendInitialMessage_def sendJSON_def state_of_def Let_def emit_def log_line_def)

lemma registry_onWebSocketClose [simp]: "registry (onWebSocketClose code reason c) = registry c"
  by (simp add: registry_def onWebSocketClose_def scheduleReconnect_def Let_def emit_def log_line_def)

lemma registry_onWebSocketError [simp]: "registry (onWebSocketError c) = registry c"
  by (simp add: onWebSocketError_def)

lemma registry_reconnect_timeout [simp]: "registry (reconnect_timeout ev c) = registry c"
  by (simp add: reconnect_timeout_def registry_def[of "c\<lparr>reconnectTimer := _\<rparr>"] registry_def[of c] split: option.splits)

lemma registry_qr_timeout [simp]: "registry (qr_timeout ev c) = registry c"
  by (simp add: qr_timeout_def Let_def registry_def[of "c\<lparr>qrRefreshTimer := _, qrRetryCount := _\<rparr>"] registry_def[of c] split: option.splits)

lemma registry_ready_timeout [simp]: "registry (ready_timeout i c) = registry c"
  by (simp add: ready_timeout_def Let_def registry_def emit_def)

lemma registry_handleQRCode [simp]: "registry (handleQRCode ev r c) = registry c"
  by (simp add: registry_def handleQRCode_def generateKeys_def Let_def emit_def log_line_def)

lemma registry_handleAuthSuccess [simp]: "registry (state_of (handleAuthSuccess d c)) = registry c"
  by (simp add: registry_def handleAuthSuccess_def state_of_def Let_def emit_def split: option.splits)

lemma registry_processJsonMessage [simp]: "registry (state_of (processJsonMessage ev m c)) = registry c"
  by (simp add: processJsonMessage_def) (simp add: state_of_def)

lemma registry_processMessage [simp]: "registry (processMessage ev b c) = registry c"
  by (rule processMessage_preserves [where P = "\<lambda>x. registry x = registry c"]) simp_all

lemma registry_processNotification [simp]: "registry (processNotification n c) = registry c"
  by (simp add: processNotification_def)

lemma registry_dispatch_content [simp]: "registry (dispatch_content m c) = registry c"
  by (simp add: dispatch_content_def split: option.splits)

lemma settle_not_pending [simp]: "v \<noteq> Pending \<Longrightarrow> settle v p \<noteq> Pending"
  by (simp add: settle_def)

lemma settle_settled [simp]: "p \<noteq> Pending \<Longrightarrow> settle v p = p"
  by (simp add: settle_def)

lemma t_armed_disarm [simp]: "\<not> t_armed (disarm t)"
  by (simp add: disarm_def)

lemma explained_settle:
  "explained E tag p \<Longrightarrow> explained E tag v \<Longrightarrow> explained E tag (settle v p)"
  by (simp add: settle_def)

lemma set_delete_subset: "set (AList.delete k al) \<subseteq> set al"
  by (auto simp: AList.delete_eq)

lemma set_update_subset: "set (AList.update k v al) \<subseteq> insert (k, v) (set al)"
  by (induction al) auto

lemma registry_inv_update:
  assumes inv: "registry_inv E c"
    and rid: "rid < length (requests c)"
    and tag: "rq_tag r' = rq_tag (requests c ! rid)"
    and timer: "rq_promise r' = Pending \<longleftrightarrow> t_armed (rq_timer r')"
    and expl: "explained E (rq_tag r') (rq_promise r')"
    and cbs: "set (callbacks c') \<subseteq> set (callbacks c)"
    and reqs: "requests c' = (requests c)[rid := r']"
    and counter: "messageTagCounter c' = messageTagCounter c"
  shows "registry_inv E c'"
proof -
  have tags: "map (tag_counter \<circ> rq_tag) (requests c') = map (tag_counter \<circ> rq_tag) (requests c)"
    using rid tag by (simp add: reqs map_update list_update_same_conv)
  have each: "tag_counter (rq_tag r) < messageTagCounter c' \<and>
      (rq_promise r = Pending \<longleftrightarrow> t_armed (rq_timer r)) \<and>
      explained E (rq_tag r) (rq_promise r)"
    if "r \<in> set (requests c')" for r
  proof (cases "r = r'")
    case True
    from inv rid have "tag_counter (rq_tag (requests c ! rid)) < messageTagCounter c"
      by (simp add: registry_inv_def)
    with True tag timer expl counter show ?thesis by simp
  next
    case False
    with that have "r \<in> set (requests c)"
      using set_update_subset_insert [of "requests c" rid r'] by (auto simp: reqs)
    with inv counter show ?thesis by (simp add: registry_inv_def)
  qed
  have cb: "rid' < length (requests c') \<and> rq_tag (requests c' ! rid') = t"
    if "(t, rid') \<in> set (callbacks c')" for t rid'
  proof -
    from that cbs have "(t, rid') \<in> set (callbacks c)" by auto
    with inv have "rid' < length (requests c)" and "rq_tag (requests c ! rid') = t"
      by (auto simp: registry_inv_def)
    with tag show ?thesis
      by (cases "rid' = rid") (simp_all add: reqs)
  qed
  from inv have "sorted_wrt (<) (map (tag_counter \<circ> rq_tag) (requests c))"
    by (simp add: registry_inv_def)
  with tags each cb show ?thesis
    unfolding registry_inv_def by auto
qed

lemma registry_inv_request_timeout:
  assumes "registry_inv E c"
  shows "registry_inv E (request_timeout rid c)"
proof (cases "rid < length (requests c) \<and> t_armed (rq_timer (requests c ! rid))")
  case False
  with assms show ?thesis by (auto simp: request_timeout_def)
next
  case True
  let ?r = "requests c ! rid"
  let ?r' = "?r\<lparr>rq_timer := disarm (rq_timer ?r),
                 rq_promise := settle (Rejected (Error ''Response timeout'')) (rq_promise ?r)\<rparr>"
  from True have "?r \<in> set (requests c)" by simp
  with assms have "explained E (rq_tag ?r) (rq_promise ?r)" by (simp add: registry_inv_def)
  then have "explained E (rq_tag ?r') (rq_promise ?r')"
    by (simp add: explained_settle)
  with assms True show ?thesis
    by - (rule registry_inv_update [where c = c and rid = rid and r' = ?r'],
          simp_all add: request_timeout_def Let_def set_delete_subset)
qed

lemma registry_inv_send_callback:
  assumes "registry_inv E c" and "\<And>e. err = Some e \<Longrightarrow> e \<in> E"
  shows "registry_inv E (send_callback rid err c)"
proof (cases "err \<noteq> None \<and> rid < length (requests c)")
  case False
  with assms show ?thesis by (auto simp: send_callback_def split: option.splits)
next
  case True
  then obtain e where e: "err = Some e" by auto
  let ?r = "requests c ! rid"
  let ?r' = "?r\<lparr>rq_timer := disarm (rq_timer ?r),
                 rq_promise := settle (Rejected e) (rq_promise ?r)\<rparr>"
  from True have "?r \<in> set (requests c)" by simp
  with assms have "explained E (rq_tag ?r) (rq_promise ?r)" by (simp add: registry_inv_def)
  then have "explained E (rq_tag ?r') (rq_promise ?r')"
    using assms(2) [OF e] by (simp add: explained_settle)
  with assms True e show ?thesis
    by - (rule registry_inv_update [where c = c and rid = rid and r' = ?r'],
          simp_all add: send_callback_def Let_def set_delete_subset)
qed

lemma registry_inv_reply_callback:
  assumes inv: "registry_inv E c"
    and tag: "get_prop m ''tag'' = Some (JString t)"
    and cb: "map_of (callbacks c) t = Some rid"
  shows "registry_inv E ((reply_callback rid m c)\<lparr>callbacks := AList.delete t (callbacks c)\<rparr>)"
proof -
  from cb have "(t, rid) \<in> set (callbacks c)" by (rule map_of_SomeD)
  with inv have rid: "rid < length (requests c)" and t: "rq_tag (requests c ! rid) = t"
    by (auto simp: registry_inv_def)
  let ?r = "requests c ! rid"
  let ?r' = "?r\<lparr>rq_timer := disarm (rq_timer ?r),
                 rq_promise := settle (Resolved m) (rq_promise ?r)\<rparr>"
  from rid have "?r \<in> set (requests c)" by simp
  with inv have "explained E (rq_tag ?r) (rq_promise ?r)" by (simp add: registry_inv_def)
  then have "explained E (rq_tag ?r') (rq_promise ?r')"
    using tag t by (simp add: explained_settle)
  with inv rid show ?thesis
    by - (rule registry_inv_update [where c = c and rid = rid and r' = ?r'],
          simp_all add: reply_callback_def Let_def set_delete_subset)
qed

lemma registry_inv_lookup:
  assumes "registry_inv E c"
  shows "registry_inv E
           (case get_prop m ''tag'' of
              Some (JString t) \<Rightarrow>
                (case map_of (callbacks c) t of
                   Some rid \<Rightarrow>
                     (reply_callback rid m c)\<lparr>callbacks := AList.delete t (callbacks c)\<rparr>
                 | None \<Rightarrow> c)
            | _ \<Rightarrow> c)"
proof (cases "get_prop m ''tag''")
  case None
  with assms show ?thesis by simp
next
  case (Some j)
  show ?thesis
  proof (cases j)
    case (JString t)
    show ?thesis
    proof (cases "map_of (callbacks c) t")
      case None
      with Some JString assms show ?thesis by simp
    next
      case (Some rid)
      with \<open>get_prop m ''tag'' = Some j\<close> JString registry_inv_reply_callback [OF assms, of m t rid]
      show ?thesis by simp
    qed
  qed (use Some assms in simp_all)
qed

lemma registry_inv_processBinaryMessage:
  assumes "registry_inv E c"
  shows "registry_inv E (state_of (processBinaryMessage message c))"
proof (cases message)
  case (RawData b)
  have "registry_inv E (log_line ''Received binary message without tag'' c) = registry_inv E c"
    by (rule registry_inv_cong) simp
  with assms RawData show ?thesis
    by (simp add: processBinaryMessage_def state_of_def)
next
  case (Parsed m)
  have logged: "registry_inv E (log_line ''Received binary message without tag'' c) = registry_inv E c"
    by (rule registry_inv_cong) simp
  have dispatched: "registry_inv E (dispatch_content m c') = registry_inv E c'" for c'
    by (rule registry_inv_cong) simp
  from assms Parsed show ?thesis
    using registry_inv_lookup [OF assms, of m]
    by (simp add: processBinaryMessage_def state_of_def Let_def logged dispatched)
qed

lemma js_increment_mono: "n \<le> js_increment n"
  by (simp add: js_increment_def)

lemma registry_inv_counter:
  assumes "registry_inv E c" and "requests c' = requests c" and "callbacks c' = callbacks c"
    and "messageTagCounter c \<le> messageTagCounter c'"
  shows "registry_inv E c'"
proof -
  have "tag_counter (rq_tag r) < messageTagCounter c'" if "r \<in> set (requests c)" for r
  proof -
    from assms(1) that have "tag_counter (rq_tag r) < messageTagCounter c"
      by (simp add: registry_inv_def)
    with assms(4) show ?thesis by simp
  qed
  with assms(1) show ?thesis
    by (simp add: registry_inv_def assms(2,3))
qed

lemma registry_inv_generateMessageTag:
  assumes "registry_inv E c"
  shows "registry_inv E (snd (generateMessageTag ev c))"
  using assms
  by (rule registry_inv_counter) (simp_all add: generateMessageTag_def js_increment_mono)

lemma registry_inv_sendBinary:
  assumes inv: "registry_inv E c" and bound: "messageTagCounter c < 2 ^ 53"
  shows "registry_inv E (state_of (sendBinary ev node None timeout_opt c))"
proof (cases "ws_open c")
  case False
  with inv show ?thesis by (simp add: sendBinary_def state_of_def)
next
  case True
  let ?tag = "fst (generateMessageTag ev c)"
  let ?c' = "state_of (sendBinary ev node None timeout_opt c)"
  obtain new where reqs: "requests ?c' = requests c @ [new]"
    and new: "rq_tag new = ?tag" "rq_promise new = Pending" "t_armed (rq_timer new)"
    using True
    by (simp add: sendBinary_def state_of_def generateMessageTag_def Let_def)
  have cbs: "callbacks ?c' = AList.update ?tag (length (requests c)) (callbacks c)"
    and cnt: "messageTagCounter ?c' = messageTagCounter c + 1"
    using True bound
    by (simp_all add: sendBinary_def state_of_def generateMessageTag_def Let_def js_increment_def)
  have k: "tag_counter ?tag = messageTagCounter c"
    by (rule tag_counter_generateMessageTag)
  from inv have old: "\<forall>r \<in> set (requests c). tag_counter (rq_tag r) < messageTagCounter c"
    by (simp add: registry_inv_def)
  from inv have "sorted_wrt (<) (map (tag_counter \<circ> rq_tag) (requests c))"
    by (simp add: registry_inv_def)
  with old k new have sorted: "sorted_wrt (<) (map (tag_counter \<circ> rq_tag) (requests ?c'))"
    by (simp add: reqs sorted_wrt_append)
  have each: "tag_counter (rq_tag r) < messageTagCounter ?c' \<and>
      (rq_promise r = Pending \<longleftrightarrow> t_armed (rq_timer r)) \<and>
      explained E (rq_tag r) (rq_promise r)"
    if "r \<in> set (requests ?c')" for r
  proof (cases "r = new")
    case True
    with new k cnt show ?thesis by simp
  next
    case False
    with that have "r \<in> set (requests c)" by (simp add: reqs)
    with inv cnt show ?thesis by (simp add: registry_inv_def less_SucI)
  qed
  have cb: "rid < length (requests ?c') \<and> rq_tag (requests ?c' ! rid) = t"
    if "(t, rid) \<in> set (callbacks ?c')" for t rid
  proof -
    from that have "(t, rid) = (?tag, length (requests c)) \<or> (t, rid) \<in> set (callbacks c)"
      using set_update_subset [of ?tag "length (requests c)" "callbacks c"]
      by (auto simp: cbs)
    then show ?thesis
    proof
      assume "(t, rid) = (?tag, length (requests c))"
      then show ?thesis by (simp add: reqs new)
    next
      assume "(t, rid) \<in> set (callbacks c)"
      with inv have "rid < length (requests c)" and "rq_tag (requests c ! rid) = t"
        by (auto simp: registry_inv_def)
      then show ?thesis by (simp add: reqs nth_append)
    qed
  qed
  from sorted each cb show ?thesis
    unfolding registry_inv_def by auto
qed

lemma registry_step:
  "\<not> touches_registry i \<Longrightarrow> registry (step ev i c) = registry c"
  by (cases i) (simp_all add: onWebSocketMessage_def)

lemma registry_eqD:
  "registry c' = registry c \<Longrightarrow>
   requests c' = requests c \<and> callbacks c' = callbacks c \<and>
   messageTagCounter c' = messageTagCounter c"
  by (simp add: registry_def)

lemma counter_processBinaryMessage:
  "messageTagCounter (state_of (processBinaryMessage message c)) = messageTagCounter c"
proof -
  have "messageTagCounter (dispatch_content m c') = messageTagCounter c'" for m c'
    using registry_eqD [OF registry_dispatch_content [of m c']] by simp
  then show ?thesis
    by (simp add: processBinaryMessage_def state_of_def reply_callback_def log_line_def Let_def
        split: decoded.splits option.splits json.splits)
qed

lemma counter_step:
  "messageTagCounter c \<le> messageTagCounter (step ev i c) \<and>
   messageTagCounter (step ev i c) \<le> messageTagCounter c + 1"
proof (cases "touches_registry i")
  case False
  then show ?thesis
    using registry_eqD [OF registry_step [of i ev c]] by simp
next
  case True
  show ?thesis
  proof (cases i)
    case (Reply message)
    then show ?thesis by (simp add: counter_processBinaryMessage)
  next
    case (SendBinary node timeout_opt)
    then show ?thesis
      by (simp add: generateMessageTag_def sendBinary_def state_of_def js_increment_def Let_def)
  qed (use True in \<open>simp_all add: request_timeout_def send_callback_def
        generateMessageTag_def js_increment_def Let_def split: option.splits\<close>)
qed

lemma counter_run: "messageTagCounter c \<le> messageTagCounter (run ins c)"
proof (induction ins arbitrary: c)
  case Nil
  show ?case by simp
next
  case (Cons x ins)
  obtain ev i where x: "x = (ev, i)" by (cases x)
  have "messageTagCounter c \<le> messageTagCounter (step ev i c)"
    using counter_step [of c ev i] by simp
  also have "\<dots> \<le> messageTagCounter (run ins (step ev i c))"
    by (rule Cons.IH)
  finally show ?case by (simp add: x)
qed

lemma registry_inv_step:
  assumes inv: "registry_inv E c" and bound: "messageTagCounter c < 2 ^ 53"
    and errs: "set (reported_error i) \<subseteq> E"
  shows "registry_inv E (step ev i c)"
proof (cases "touches_registry i")
  case False
  then have "registry_inv E (step ev i c) = registry_inv E c"
    by (intro registry_inv_cong registry_step)
  with inv show ?thesis by simp
next
  case True
  then show ?thesis
  proof (cases i)
    case (RequestTimer rid)
    with inv show ?thesis by (simp add: registry_inv_request_timeout)
  next
    case (SendCallback rid err)
    with errs have "\<And>e. err = Some e \<Longrightarrow> e \<in> E" by auto
    with inv SendCallback show ?thesis by (simp add: registry_inv_send_callback)
  next
    case GenerateTag
    with inv show ?thesis by (simp add: registry_inv_generateMessageTag)
  next
    case (SendBinary node timeout_opt)
    with inv bound show ?thesis by (simp add: registry_inv_sendBinary)
  next
    case (Reply message)
    with inv show ?thesis by (simp add: registry_inv_processBinaryMessage)
  qed simp_all
qed

lemma send_errors_Cons:
  "send_errors ((ev, i) # ins) = set (reported_error i) \<union> send_errors ins"
  by (simp add: send_errors_def)

lemma registry_inv_run:
  assumes "registry_inv E c" and "messageTagCounter c + length ins \<le> 2 ^ 53"
    and "send_errors ins \<subseteq> E"
  shows "registry_inv E (run ins c)"
  using assms
proof (induction ins arbitrary: c)
  case Nil
  then show ?case by simp
next
  case (Cons x ins)
  obtain ev i where x: "x = (ev, i)" by (cases x)
  from Cons.prems have bound: "messageTagCounter c < 2 ^ 53" by simp
  from Cons.prems have errs: "set (reported_error i) \<subseteq> E" "send_errors ins \<subseteq> E"
    by (simp_all add: x send_errors_Cons)
  have "registry_inv E (step ev i c)"
    using Cons.prems(1) bound errs(1) by (rule registry_inv_step)
  moreover have "messageTagCounter (step ev i c) + length ins \<le> 2 ^ 53"
    using counter_step [of c ev i] Cons.prems(2) by simp
  ultimately have "registry_inv E (run ins (step ev i c))"
    using errs(2) by (rule Cons.IH)
  then show ?case by (simp add: x)
qed

lemma registry_inv_empty: "requests c = [] \<Longrightarrow> callbacks c = [] \<Longrightarrow> registry_inv E c"
  by (simp add: registry_inv_def)

lemma registry_inv_distinct:
  assumes "registry_inv E c"
  shows "distinct (map rq_tag (requests c))"
proof -
  from assms have "sorted_wrt (<) (map (tag_counter \<circ> rq_tag) (requests c))"
    by (simp add: registry_inv_def)
  then have "distinct (map (tag_counter \<circ> rq_tag) (requests c))"
    by (simp add: strict_sorted_iff)
  then have "distinct (requests c)" and "inj_on (tag_counter \<circ> rq_tag) (set (requests c))"
    by (simp_all add: distinct_map)
  then show ?thesis
    by (auto simp: distinct_map dest: inj_on_imageI2)
qed

lemma keeps_settled_refl: "requests c' = requests c \<Longrightarrow> keeps_settled c c'"
  by (simp add: keeps_settled_def)

lemma keeps_settled_trans:
  "keeps_settled a b \<Longrightarrow> keeps_settled b c \<Longrightarrow> keeps_settled a c"
  by (auto simp: keeps_settled_def)

lemma keeps_settled_update:
  assumes "requests c' = (requests c)[rid := r']" and "rid < length (requests c)"
    and "rq_tag r' = rq_tag (requests c ! rid)"
    and "rq_promise r' = settle v (rq_promise (requests c ! rid))"
  shows "keeps_settled c c'"
  using assms by (auto simp: keeps_settled_def nth_list_update)

lemma keeps_settled_request_timeout: "keeps_settled c (request_timeout rid c)"
proof (cases "rid < length (requests c) \<and> t_armed (rq_timer (requests c ! rid))")
  case True
  let ?r = "requests c ! rid"
  let ?v = "Rejected (Error ''Response timeout'')"
  let ?r' = "?r\<lparr>rq_timer := disarm (rq_timer ?r), rq_promise := settle ?v (rq_promise ?r)\<rparr>"
  from True show ?thesis
    by - (rule keeps_settled_update [where rid = rid and r' = ?r' and v = ?v],
          simp_all add: request_timeout_def Let_def)
next
  case False
  then show ?thesis by (auto simp: request_timeout_def intro: keeps_settled_refl)
qed

lemma keeps_settled_send_callback: "keeps_settled c (send_callback rid err c)"
proof (cases "err \<noteq> None \<and> rid < length (requests c)")
  case True
  then obtain e where e: "err = Some e" by auto
  let ?r = "requests c ! rid"
  let ?r' = "?r\<lparr>rq_timer := disarm (rq_timer ?r),
                 rq_promise := settle (Rejected e) (rq_promise ?r)\<rparr>"
  from True e show ?thesis
    by - (rule keeps_settled_update [where rid = rid and r' = ?r' and v = "Rejected e"],
          simp_all add: send_callback_def Let_def)
next
  case False
  then show ?thesis
    by (auto simp: send_callback_def intro: keeps_settled_refl split: option.splits)
qed

lemma keeps_settled_reply_callback:
  "keeps_settled c ((reply_callback rid m c)\<lparr>callbacks := cbs\<rparr>)"
proof (cases "rid < length (requests c)")
  case True
  let ?r = "requests c ! rid"
  let ?r' = "?r\<lparr>rq_timer := disarm (rq_timer ?r),
                 rq_promise := settle (Resolved m) (rq_promise ?r)\<rparr>"
  from True show ?thesis
    by - (rule keeps_settled_update [where rid = rid and r' = ?r' and v = "Resolved m"],
          simp_all add: reply_callback_def Let_def)
next
  case False
  then show ?thesis by (simp add: reply_callback_def keeps_settled_refl)
qed

lemma requests_dispatch_content: "requests (dispatch_content m c) = requests c"
  using registry_eqD [OF registry_dispatch_content [of m c]] by simp

lemma keeps_settled_processBinaryMessage:
  "keeps_settled c (state_of (processBinaryMessage message c))"
proof (cases message)
  case (RawData b)
  then show ?thesis
    by (simp add: processBinaryMessage_def state_of_def log_line_def keeps_settled_refl)
next
  case (Parsed m)
  have "keeps_settled c
      (case get_prop m ''tag'' of
         Some (JString t) \<Rightarrow>
           (case map_of (callbacks c) t of
              Some rid \<Rightarrow> (reply_callback rid m c)\<lparr>callbacks := AList.delete t (callbacks c)\<rparr>
            | None \<Rightarrow> c)
       | _ \<Rightarrow> c)"
    by (simp add: keeps_settled_reply_callback keeps_settled_refl
        split: option.split json.split)
  then have "keeps_settled c (dispatch_content m
      (case get_prop m ''tag'' of
         Some (JString t) \<Rightarrow>
           (case map_of (callbacks c) t of
              Some rid \<Rightarrow> (reply_callback rid m c)\<lparr>callbacks := AList.delete t (callbacks c)\<rparr>
            | None \<Rightarrow> c)
       | _ \<Rightarrow> c))"
    by (simp add: keeps_settled_def requests_dispatch_content)
  with Parsed show ?thesis
    by (simp add: processBinaryMessage_def state_of_def Let_def log_line_def keeps_settled_refl)
qed

lemma keeps_settled_sendBinary:
  "keeps_settled c (state_of (sendBinary ev node tag_opt timeout_opt c))"
  by (auto simp: sendBinary_def state_of_def generateMessageTag_def Let_def keeps_settled_def
      nth_append split: option.splits)

lemma keeps_settled_step: "keeps_settled c (step ev i c)"
proof (cases "touches_registry i")
  case False
  then show ?thesis
    using registry_eqD [OF registry_step [of i ev c]] by (simp add: keeps_settled_refl)
next
  case True
  then show ?thesis
    by (cases i)
       (simp_all add: keeps_settled_request_timeout keeps_settled_send_callback
          keeps_settled_processBinaryMessage keeps_settled_sendBinary
          generateMessageTag_def keeps_settled_refl)
qed

lemma keeps_settled_run: "keeps_settled c (run ins c)"
proof (induction ins arbitrary: c)
  case Nil
  show ?case by (simp add: keeps_settled_refl)
next
  case (Cons x ins)
  obtain ev i where x: "x = (ev, i)" by (cases x)
  have "keeps_settled c (step ev i c)"
    by (rule keeps_settled_step)
  moreover have "keeps_settled (step ev i c) (run ins (step ev i c))"
    by (rule Cons.IH)
  ultimately show ?case
    by (simp add: x keeps_settled_trans)
qed

lemma unknown_reply_dropped:
  assumes "get_prop m ''tag'' = Some (JString t)" and "map_of (callbacks c) t = None"
  shows "\<exists>c'. processBinaryMessage (Parsed m) c = Return c' \<and>
              requests c' = requests c \<and> callbacks c' = callbacks c"
proof -
  from assms(1) have "\<not> nullish m"
    by (auto simp: nullish_def)
  moreover have "requests (dispatch_content m c) = requests c"
    and "callbacks (dispatch_content m c) = callbacks c"
    using registry_eqD [OF registry_dispatch_content [of m c]] by simp_all
  ultimately show ?thesis
    using assms by (simp add: processBinaryMessage_def Let_def log_line_def)
qed

lemma later_tags_differ:
  assumes "messageTagCounter c < 2 ^ 53"
  shows "fst (generateMessageTag ev c) \<noteq>
         fst (generateMessageTag ev' (run ins (snd (generateMessageTag ev c))))"
proof -
  have "messageTagCounter (snd (generateMessageTag ev c)) = messageTagCounter c + 1"
    using assms by (simp add: generateMessageTag_def js_increment_def)
  then have "messageTagCounter c < messageTagCounter (run ins (snd (generateMessageTag ev c)))"
    using counter_run [of "snd (generateMessageTag ev c)" ins] by simp
  then show ?thesis
    by (intro generateMessageTag_distinct) simp
qed

lemma show_nat_digit: "n < 10 \<Longrightarrow> show_nat n = [digit_char n]"
  by (subst show_nat.simps) simp

lemma now0: "show_int (now env0) = ''1700000000000''"
  by (simp add: env0_def show_int_def show_nat.simps digit_char_def)

lemma sample_registry:
  "map rq_tag (requests (run sample_run ready_client)) =
     [''1700000000000.--0'', ''1700000000000.--1''] \<and>
   map rq_promise (requests (run sample_run ready_client)) =
     [Resolved reply0, Rejected (Error ''Response timeout'')] \<and>
   callbacks (run sample_run ready_client) = []"
  by (simp add: sample_run_def ready_client_def new_client_def sendBinary_def ws_open_def
      generateMessageTag_def now0 show_nat_digit digit_char_def js_increment_def state_of_def
      Let_def processBinaryMessage_def nullish_def reply0_def reply_callback_def
      dispatch_content_def emit_def is_string_def request_timeout_def send_callback_def
      settle_def disarm_def)

text \<open>
  Claim C3. Take any client whose registry is empty (a new client in particular) and any
  run of at most \<open>2 ^ 53\<close> inputs in which tagged requests are sent without a caller-supplied
  tag, as every caller in the repository does. Then all requests created in the run carry
  pairwise distinct tags; a request is pending exactly while its timeout timer is armed,
  so that its timeout settles it if nothing else did; every settled promise was resolved
  by a reply carrying its tag, rejected by its timeout, or rejected with an error that
  \<^verbatim>\<open>ws.send\<close> reported; and a promise that is settled keeps its value under every further
  input. Two calls of \<^verbatim>\<open>_generateMessageTag\<close>, with anything in between, return different
  tags while the counter is below \<open>2 ^ 53\<close>. A reply whose tag has no registered callback
  returns normally and leaves requests and registry unchanged.
\<close>

theorem tagged_requests_settle_once:
  assumes "requests c = []" and "callbacks c = []"
    and "messageTagCounter c + length ins \<le> 2 ^ 53"
  shows
    "distinct (map rq_tag (requests (run ins c))) \<and>
     (\<forall>r \<in> set (requests (run ins c)).
        (rq_promise r = Pending \<longleftrightarrow> t_armed (rq_timer r)) \<and>
        explained (send_errors ins) (rq_tag r) (rq_promise r)) \<and>
     (\<forall>rid < length (requests (run ins c)).
        rq_promise (requests (run ins c) ! rid) \<noteq> Pending \<longrightarrow>
        rq_promise (requests (run later (run ins c)) ! rid) =
          rq_promise (requests (run ins c) ! rid)) \<and>
     (messageTagCounter d < 2 ^ 53 \<longrightarrow>
        fst (generateMessageTag ev d) \<noteq>
        fst (generateMessageTag ev' (run between (snd (generateMessageTag ev d))))) \<and>
     (get_prop m ''tag'' = Some (JString t) \<and> map_of (callbacks d) t = None \<longrightarrow>
        (\<exists>d'. processBinaryMessage (Parsed m) d = Return d' \<and>
               requests d' = requests d \<and> callbacks d' = callbacks d))"
proof -
  have "registry_inv (send_errors ins) c"
    using assms(1,2) by (rule registry_inv_empty)
  then have inv: "registry_inv (send_errors ins) (run ins c)"
    using assms(3) by (rule registry_inv_run) simp
  then have "distinct (map rq_tag (requests (run ins c)))"
    by (rule registry_inv_distinct)
  moreover from inv have "\<forall>r \<in> set (requests (run ins c)).
        (rq_promise r = Pending \<longleftrightarrow> t_armed (rq_timer r)) \<and>
        explained (send_errors ins) (rq_tag r) (rq_promise r)"
    by (simp add: registry_inv_def)
  moreover have "\<forall>rid < length (requests (run ins c)).
        rq_promise (requests (run ins c) ! rid) \<noteq> Pending \<longrightarrow>
        rq_promise (requests (run later (run ins c)) ! rid) =
          rq_promise (requests (run ins c) ! rid)"
    using keeps_settled_run [of "run ins c" later] by (simp add: keeps_settled_def)
  ultimately show ?thesis
    using later_tags_differ [of d ev ev' between] unknown_reply_dropped [of m t d]
    by blast
qed

text \<open>
  A run on a ready client: two requests, a reply to the first, a late send error for the
  first, and both timeout timers firing. The first promise stays resolved by its reply,
  the second is rejected by its timeout, and the registry ends empty.
\<close>

theorem tagged_requests_settle_once_witness:
  "requests ready_client = [] \<and> callbacks ready_client = [] \<and>
   messageTagCounter ready_client + length sample_run \<le> 2 ^ 53 \<and>
   distinct (map rq_tag (requests (run sample_run ready_client))) \<and>
   map rq_tag (requests (run sample_run ready_client)) =
     [''1700000000000.--0'', ''1700000000000.--1''] \<and>
   map rq_promise (requests (run sample_run ready_client)) =
     [Resolved reply0, Rejected (Error ''Response timeout'')] \<and>
   map (t_armed \<circ> rq_timer) (requests (run sample_run ready_client)) = [False, False] \<and>
   callbacks (run sample_run ready_client) = []"
proof -
  have empty: "requests ready_client = []" "callbacks ready_client = []"
    by (simp_all add: ready_client_def new_client_def)
  have bound: "messageTagCounter ready_client + length sample_run \<le> 2 ^ 53"
    by (simp add: ready_client_def new_client_def sample_run_def)
  note c3 = tagged_requests_settle_once [OF empty bound]
  from c3 have "distinct (map rq_tag (requests (run sample_run ready_client)))"
    by (rule conjunct1)
  moreover have "map (t_armed \<circ> rq_timer) (requests (run sample_run ready_client)) =
      [False, False]"
  proof -
    from c3 have pending: "\<forall>r \<in> set (requests (run sample_run ready_client)).
        rq_promise r = Pending \<longleftrightarrow> t_armed (rq_timer r)"
      by blast
    from sample_registry obtain r0 r1
      where rs: "requests (run sample_run ready_client) = [r0, r1]"
        and "rq_promise r0 = Resolved reply0"
        and "rq_promise r1 = Rejected (Error ''Response timeout'')"
      by (auto simp: map_eq_Cons_conv)
    with pending have "\<not> t_armed (rq_timer r0)" and "\<not> t_armed (rq_timer r1)"
      by auto
    with rs show ?thesis by simp
  qed
  ultimately show ?thesis
    using empty bound sample_registry by simp
qed

end
